theory Spec2Isabelle
  imports Complex_Main
begin

section \<open>The training driver \<open>train_resnet_cifar10.py\<close>\<close>

text \<open>
  The script is a straight line of calls into collaborators (argparse, the data loaders,
  the model factory, Keras, the file system). The model keeps the script's own control
  flow: its branches, its local variables (a local that a branch may leave unassigned is
  an \<open>option\<close>, and reading it while \<open>None\<close> is Python's \<open>UnboundLocalError\<close>), the order
  of its calls, and the exceptions it raises. Every call into a collaborator is an
  \<open>event\<close>; a run yields an outcome and the list of the calls that returned, in order.
  Whether a collaborator returns or raises is not decided by the script: it is the
  parameter \<open>fails\<close> of the environment.
\<close>

subsection \<open>Values\<close>

text \<open>
  A Python float, as far as the script looks at one: it compares
  \<open>validation_split\<close> with zero and formats \<open>learning_rate\<close> into a path.
\<close>

datatype pyfloat = Finite real | PosInf | NegInf | NaN

fun float_gt0 :: "pyfloat \<Rightarrow> bool" where
  "float_gt0 (Finite r) = (0 < r)"
| "float_gt0 PosInf = True"
| "float_gt0 NegInf = False"
| "float_gt0 NaN = False"

text \<open>
  The namespace \<open>args\<close>. \<open>arg_attention\<close> holds what \<open>string2bool\<close> returned
  (\<open>None\<close> is Python's \<open>None\<close>); \<open>arg_depth\<close> is the attribute \<open>args.depth\<close>,
  absent (\<open>None\<close>) until the CIFAR-10 branch of \<open>main\<close> sets it.
\<close>

record args =
  arg_dataset :: string
  arg_num_classes :: int
  arg_model_name :: string
  arg_n :: int
  arg_version :: int
  arg_batch_size :: int
  arg_seed :: int
  arg_validation_split :: pyfloat
  arg_norm :: bool
  arg_epochs :: int
  arg_optimizer_name :: string
  arg_learning_rate :: pyfloat
  arg_weight_decay :: pyfloat
  arg_momentum :: pyfloat
  arg_lr_schedule :: string
  arg_attention :: "bool option"
  arg_attention_type :: string
  arg_depth :: "int option"

text \<open>
  An invocation of the script. \<open>flags\<close> holds the values of the flags whose conversion
  is argparse's own (\<open>str\<close>, \<open>int\<close>, \<open>float\<close>, \<open>store_true\<close>), defaults filled in;
  \<open>attention_flag\<close> is the raw text given to \<open>--attention\<close>, whose conversion is the
  script's \<open>string2bool\<close> (\<open>None\<close>: the flag is not given). The parser does not read
  \<open>arg_attention\<close> and \<open>arg_depth\<close> of \<open>flags\<close>.
\<close>

record invocation =
  flags :: args
  attention_flag :: "string option"

datatype sched = Cifar10_scheduler | Keras_lr_scheduler

text \<open>The model objects the script can hold, by how they were built.\<close>

datatype model =
    Created string int
  | Padded model
  | Created_cifar10 int int

text \<open>The data sets in scope at \<open>model.fit\<close>, each a pair of inputs and labels.\<close>

datatype data = Cifar10_train | Cifar10_test | Split_train | Split_val

text \<open>
  The calls into collaborators, each with the arguments the script passes: the prints of
  lines 98, 238 and 243; \<open>load_cifar10_sequence\<close> (line 125, with batch size, seed,
  \<open>norm\<close> and validation split); the seed setters of lines 136 to 141; the first batch of
  line 144; \<open>create_model\<close> (lines 152 and 177) and the wrapping of lines 155 to 160;
  \<open>create_model_cifar10\<close> (line 172, with depth and version); \<open>os.makedirs\<close>, \<open>open\<close>,
  \<open>json.dump\<close> and the closing of the file (lines 187 to 190); \<open>create_optimizer\<close>
  (line 192); the scheduler callback, the loss and the metrics (lines 196 to 202);
  \<open>model.compile\<close> (line 204); the three other callbacks (lines 209 to 221);
  \<open>load_cifar10\<close>, \<open>train_test_split\<close> and \<open>model.fit\<close> (lines 240 to 253, \<open>fit\<close> with
  the model, the training data, batch size, epochs and the validation data).
\<close>

datatype event =
    Print_args args
  | Load_cifar10_sequence int int bool pyfloat
  | Set_random_seed int
  | Random_seed int
  | Np_random_seed int
  | Tf_set_seed int
  | Sequence_getitem
  | Create_model string int
  | Keras_Input
  | Tf_cast
  | Tf_pad
  | Apply_model_core
  | Keras_Model
  | Create_model_cifar10 int int
  | Makedirs string
  | Open_write string
  | Json_dump args string
  | Close_file string
  | Create_optimizer string pyfloat pyfloat pyfloat
  | LearningRateScheduler sched
  | CategoricalCrossentropy
  | BinaryAccuracy
  | CategoricalAccuracy
  | Compile model
  | CSVLogger string
  | TensorBoard string
  | ModelCheckpoint string
  | Print_no_augmentation
  | Load_cifar10
  | Print_validation_split pyfloat
  | Train_test_split pyfloat int
  | Fit model data int int data

text \<open>
  The exceptions. \<open>ArgumentTypeError\<close> and \<open>ValueError\<close> carry the value the message
  quotes, \<open>UnboundLocalError\<close> the name of the local, \<open>SystemExit\<close> the exit status, and
  \<open>Collaborator\<close> the call that raised.
\<close>

datatype error =
    ArgumentTypeError string
  | SystemExit int
  | ValueError string
  | UnboundLocalError string
  | Collaborator event

text \<open>
  What the script does not decide. \<open>fails tr ev\<close>: the call \<open>ev\<close>, made after the calls
  \<open>tr\<close> have returned, raises. \<open>now\<close>: the text of
  \<open>datetime.now().strftime("%Y%m%d-%H%M%S")\<close>. \<open>expanduser\<close>: \<open>os.path.expanduser\<close> for
  the user who runs the script. \<open>float_repr\<close>: the text of a float in an f-string.
\<close>

record env =
  fails :: "event list \<Rightarrow> event \<Rightarrow> bool"
  now :: string
  expanduser :: "string \<Rightarrow> string"
  float_repr :: "pyfloat \<Rightarrow> string"

subsection \<open>Runs\<close>

type_synonym 'a run = "event list \<Rightarrow> (error + 'a) \<times> event list"

definition ret :: "'a \<Rightarrow> 'a run" where
  "ret x = (\<lambda>tr. (Inr x, tr))"

definition raise :: "error \<Rightarrow> 'a run" where
  "raise e = (\<lambda>tr. (Inl e, tr))"

definition bind :: "'a run \<Rightarrow> ('a \<Rightarrow> 'b run) \<Rightarrow> 'b run" where
  "bind m f = (\<lambda>tr. case m tr of (Inl e, tr') \<Rightarrow> (Inl e, tr') | (Inr x, tr') \<Rightarrow> f x tr')"

definition call :: "env \<Rightarrow> event \<Rightarrow> unit run" where
  "call E ev = (\<lambda>tr. if fails E tr ev then (Inl (Collaborator ev), tr) else (Inr (), tr @ [ev]))"

text \<open>\<open>try: m except: h\<close> with a bare \<open>except\<close>: any exception of \<open>m\<close> starts \<open>h\<close>.\<close>

definition try_except :: "'a run \<Rightarrow> 'a run \<Rightarrow> 'a run" where
  "try_except m h = (\<lambda>tr. case m tr of (Inl e, tr') \<Rightarrow> h tr' | (Inr x, tr') \<Rightarrow> (Inr x, tr'))"

text \<open>
  The exit of a \<open>with\<close> block: \<open>ev\<close> happens when the body is left, whether it
  returned or raised.
\<close>

definition ensure :: "'a run \<Rightarrow> event \<Rightarrow> 'a run" where
  "ensure m ev = (\<lambda>tr. case m tr of (r, tr') \<Rightarrow> (r, tr' @ [ev]))"

subsection \<open>Strings and paths\<close>

text \<open>\<open>str(i)\<close> of a Python int, which is also what \<open>%d\<close> and an f-string print.\<close>

definition digit_char :: "nat \<Rightarrow> char" where
  "digit_char d = ''0123456789'' ! d"

function str_nat :: "nat \<Rightarrow> string" where
  "str_nat k = (if k < 10 then [digit_char k] else str_nat (k div 10) @ [digit_char (k mod 10)])"
  by pat_completeness auto
termination
  by (relation "measure (\<lambda>k. k)") auto

definition str_int :: "int \<Rightarrow> string" where
  "str_int i = (if i < 0 then CHR ''-'' # str_nat (nat (- i)) else str_nat (nat i))"

text \<open>
  \<open>os.path.join\<close> of \<open>posixpath\<close>: a component that starts with the separator restarts
  the path; otherwise it is appended, after a separator unless the path so far is empty
  or ends with one.
\<close>

definition join_step :: "string \<Rightarrow> string \<Rightarrow> string" where
  "join_step path b =
     (if b \<noteq> [] \<and> hd b = CHR ''/'' then b
      else if path = [] \<or> last path = CHR ''/'' then path @ b
      else path @ ''/'' @ b)"

definition path_join :: "string \<Rightarrow> string list \<Rightarrow> string" where
  "path_join a p = foldl join_step a p"

subsection \<open>\<open>cmd_parser\<close>\<close>

definition string2bool :: "string \<Rightarrow> error + bool option" where
  "string2bool string =
     (if string \<notin> set [''False'', ''True''] then Inl (ArgumentTypeError string)
      else if string = ''False'' then Inr (Some False)
      else if string = ''True'' then Inr (Some True)
      else Inr None)"

text \<open>
  \<open>parser.parse_args()\<close>, as far as the script's own converter goes: argparse applies
  \<open>type=string2bool\<close> to the text of \<open>--attention\<close> when the flag is given and keeps
  the default \<open>False\<close> otherwise; an \<open>ArgumentTypeError\<close> of the converter ends the
  process through \<open>parser.error\<close>, exit status 2.
\<close>

definition parse_args :: "invocation \<Rightarrow> error + args" where
  "parse_args argv =
     (case attention_flag argv of
        None \<Rightarrow> Inr ((flags argv)\<lparr>arg_attention := Some False, arg_depth := None\<rparr>)
      | Some s \<Rightarrow>
          (case string2bool s of
             Inl e \<Rightarrow> Inl (SystemExit 2)
           | Inr v \<Rightarrow> Inr ((flags argv)\<lparr>arg_attention := v, arg_depth := None\<rparr>)))"

definition cmd_parser :: "invocation \<Rightarrow> error + args" where
  "cmd_parser argv =
     (case parse_args argv of
        Inl e \<Rightarrow> Inl e
      | Inr a \<Rightarrow>
          if arg_attention_type a \<notin> set [''official'', ''senet'']
          then Inl (ValueError (arg_attention_type a))
          else Inr a)"

subsection \<open>\<open>main\<close>\<close>

text \<open>Lines 105 to 109: \<open>lr_schedule_fn\<close> is assigned in two branches and in no other.\<close>

definition select_lr_schedule_fn :: "string \<Rightarrow> sched option" where
  "select_lr_schedule_fn lr_schedule =
     (if lr_schedule = ''cifar10_scheduler'' then Some Cifar10_scheduler
      else if lr_schedule = ''keras_lr_scheduler'' then Some Keras_lr_scheduler
      else None)"

definition resnet_family :: "string list" where
  "resnet_family = [''ResNet18'', ''ResNet34'', ''ResNet50'', ''ResNet101'', ''ResNet152'']"

definition available_models :: "string list" where
  "available_models = [''LeNet5'', ''AttentionLeNet5'', ''LeCunLeNet5''] @ resnet_family"

text \<open>The truth value of \<open>args.attention\<close> in \<open>if args.attention:\<close>.\<close>

fun truthy :: "bool option \<Rightarrow> bool" where
  "truthy None = False"
| "truthy (Some b) = b"

text \<open>Lines 99 and 117 to 121: the local \<open>model_name\<close> after the attention rewrite.\<close>

definition attention_model_name :: "args \<Rightarrow> string" where
  "attention_model_name a =
     (if truthy (arg_attention a) then
        (if arg_attention_type a = ''senet'' then ''AttentionLeNet5_SeNet''
         else if arg_attention_type a = ''official'' then ''AttentionLeNet5_Official''
         else arg_model_name a)
      else arg_model_name a)"

text \<open>Lines 135 to 141: the seed, with the fallback of the bare \<open>except\<close>.\<close>

definition set_seed :: "env \<Rightarrow> int \<Rightarrow> unit run" where
  "set_seed E s =
     try_except (call E (Set_random_seed s))
       (bind (call E (Random_seed s)) (\<lambda>_.
        bind (call E (Np_random_seed s)) (\<lambda>_.
        call E (Tf_set_seed s))))"

text \<open>
  Lines 167 to 170: the depth from the local \<open>version\<close>; with any other version the
  local \<open>depth\<close> stays unassigned.
\<close>

definition compute_depth :: "int \<Rightarrow> int \<Rightarrow> int option" where
  "compute_depth version n =
     (if version = 1 then Some (n * 6 + 2)
      else if version = 2 then Some (n * 9 + 2)
      else None)"

text \<open>
  Lines 146 to 178. The result is the local \<open>model\<close> (\<open>None\<close>: never assigned), the
  local \<open>model_name\<close> and \<open>args\<close>, which the CIFAR-10 branch extends by \<open>depth\<close>.
\<close>

definition setup_model :: "env \<Rightarrow> args \<Rightarrow> string \<Rightarrow> (model option \<times> string \<times> args) run" where
  "setup_model E a model_name =
     (if arg_dataset a = ''mnist'' then
        (if arg_model_name a \<notin> set available_models then raise (ValueError (arg_model_name a))
         else if model_name \<in> set resnet_family then
           bind (call E (Create_model model_name (arg_num_classes a))) (\<lambda>_.
           bind (call E Keras_Input) (\<lambda>_.
           bind (call E Tf_cast) (\<lambda>_.
           bind (call E Tf_pad) (\<lambda>_.
           bind (call E Apply_model_core) (\<lambda>_.
           bind (call E Keras_Model) (\<lambda>_.
           ret (Some (Padded (Created model_name (arg_num_classes a))), model_name, a)))))))
         else ret (None, model_name, a))
      else if arg_dataset a = ''cifar10'' then
        (let version = 1; n = arg_n a in
         case compute_depth version n of
           None \<Rightarrow> raise (UnboundLocalError ''depth'')
         | Some depth \<Rightarrow>
             (let a' = a\<lparr>arg_depth := Some depth\<rparr> in
              bind (call E (Create_model_cifar10 depth (arg_version a'))) (\<lambda>_.
              ret (Some (Created_cifar10 depth (arg_version a')),
                   ''ResNet'' @ str_int depth @ ''v'' @ str_int version @ ''_CIFAR10'', a'))))
      else
        bind (call E (Create_model model_name (arg_num_classes a))) (\<lambda>_.
        ret (Some (Created model_name (arg_num_classes a)), model_name, a)))"

text \<open>Lines 181 to 186: the run's directories.\<close>

definition prefix :: string where
  "prefix = path_join ''~'' [''Documents'', ''DeepLearningData'']"

definition subfix :: "env \<Rightarrow> args \<Rightarrow> string \<Rightarrow> string" where
  "subfix E a model_name =
     path_join (arg_dataset a)
       [model_name,
        ''b'' @ str_int (arg_batch_size a) @ ''-e'' @ str_int (arg_epochs a)
          @ ''-lr'' @ float_repr E (arg_learning_rate a),
        arg_optimizer_name a,
        now E]"

definition ckpt_dir :: "env \<Rightarrow> args \<Rightarrow> string \<Rightarrow> string" where
  "ckpt_dir E a model_name = expanduser E (path_join prefix [subfix E a model_name, ''ckpts''])"

definition log_dir :: "env \<Rightarrow> args \<Rightarrow> string \<Rightarrow> string" where
  "log_dir E a model_name = expanduser E (path_join prefix [subfix E a model_name, ''logs''])"

text \<open>
  Lines 187 to 190. Leaving the \<open>with\<close> block closes the file, also when
  \<open>json.dump\<close> raises.
\<close>

definition write_config :: "env \<Rightarrow> args \<Rightarrow> string \<Rightarrow> unit run" where
  "write_config E a model_name =
     bind (call E (Makedirs (ckpt_dir E a model_name))) (\<lambda>_.
     bind (call E (Makedirs (log_dir E a model_name))) (\<lambda>_.
     (let json_file = path_join (log_dir E a model_name) [''config.json''] in
      bind (call E (Open_write json_file)) (\<lambda>_.
      ensure (call E (Json_dump a json_file)) (Close_file json_file)))))"

text \<open>Reading a local: \<open>UnboundLocalError\<close> when no branch has assigned it.\<close>

definition read_local :: "string \<Rightarrow> 'a option \<Rightarrow> 'a run" where
  "read_local name v = (case v of None \<Rightarrow> raise (UnboundLocalError name) | Some x \<Rightarrow> ret x)"

text \<open>Lines 192 to 206: optimizer, scheduler callback, loss, metrics, \<open>model.compile\<close>.\<close>

definition compile_model :: "env \<Rightarrow> args \<Rightarrow> sched option \<Rightarrow> model option \<Rightarrow> model run" where
  "compile_model E a lr_schedule_fn model =
     bind (call E (Create_optimizer (arg_optimizer_name a) (arg_learning_rate a)
                     (arg_weight_decay a) (arg_momentum a))) (\<lambda>_.
     bind (read_local ''lr_schedule_fn'' lr_schedule_fn) (\<lambda>fn.
     bind (call E (LearningRateScheduler fn)) (\<lambda>_.
     bind (call E CategoricalCrossentropy) (\<lambda>_.
     bind (call E BinaryAccuracy) (\<lambda>_.
     bind (call E CategoricalAccuracy) (\<lambda>_.
     bind (read_local ''model'' model) (\<lambda>m.
     bind (call E (Compile m)) (\<lambda>_.
     ret m))))))))"

text \<open>Lines 209 to 224: the callbacks.\<close>

definition ckpt_filename :: "string \<Rightarrow> string" where
  "ckpt_filename model_name =
     model_name @ ''-epoch-{epoch:03d}-categorical_accuracy-{categorical_accuracy:.4f}.h5''"

definition make_callbacks :: "env \<Rightarrow> args \<Rightarrow> string \<Rightarrow> unit run" where
  "make_callbacks E a model_name =
     bind (call E (CSVLogger (path_join (log_dir E a model_name) [''training.log.csv'']))) (\<lambda>_.
     bind (call E (TensorBoard (log_dir E a model_name))) (\<lambda>_.
     call E (ModelCheckpoint
               (path_join (ckpt_dir E a model_name) [ckpt_filename model_name]))))"

text \<open>
  Lines 236 to 253. \<open>data_augmentation\<close> is the constant \<open>False\<close>, so the block always
  runs. The split rebinds \<open>x_train, y_train\<close> and binds \<open>x_val, y_val\<close>.
\<close>

definition fit_model :: "env \<Rightarrow> args \<Rightarrow> model \<Rightarrow> unit run" where
  "fit_model E a m =
     bind (call E Print_no_augmentation) (\<lambda>_.
     bind (call E Load_cifar10) (\<lambda>_.
     bind (if float_gt0 (arg_validation_split a) then
             bind (call E (Print_validation_split (arg_validation_split a))) (\<lambda>_.
             bind (call E (Train_test_split (arg_validation_split a) (arg_seed a))) (\<lambda>_.
             ret (Split_train, Some Split_val)))
           else ret (Cifar10_train, None)) (\<lambda>(xy_train, xy_val).
     call E (Fit m xy_train (arg_batch_size a) (arg_epochs a) Cifar10_test))))"

text \<open>Lines 180 to 253: everything after the model is set up.\<close>

definition train :: "env \<Rightarrow> args \<Rightarrow> sched option \<Rightarrow> model option \<Rightarrow> string \<Rightarrow> unit run" where
  "train E a lr_schedule_fn model model_name =
     bind (write_config E a model_name) (\<lambda>_.
     bind (compile_model E a lr_schedule_fn model) (\<lambda>m.
     bind (make_callbacks E a model_name) (\<lambda>_.
     fit_model E a m)))"

definition main :: "env \<Rightarrow> invocation \<Rightarrow> unit run" where
  "main E argv =
     (case cmd_parser argv of
        Inl e \<Rightarrow> raise e
      | Inr a \<Rightarrow>
          bind (call E (Print_args a)) (\<lambda>_.
          (let lr_schedule_fn = select_lr_schedule_fn (arg_lr_schedule a);
               model_name = attention_model_name a in
           bind (call E (Load_cifar10_sequence (arg_batch_size a) (arg_seed a) (arg_norm a)
                           (arg_validation_split a))) (\<lambda>_.
           bind (set_seed E (arg_seed a)) (\<lambda>_.
           bind (call E Sequence_getitem) (\<lambda>_.
           bind (setup_model E a model_name) (\<lambda>(model, model_name, a).
           train E a lr_schedule_fn model model_name)))))))"

subsection \<open>What the statements speak of\<close>

text \<open>
  The value of the local \<open>model_name\<close> when the paths are built (line 184): the
  CIFAR-10 branch replaces it, every other branch keeps the attention rewrite.
\<close>

definition run_model_name :: "args \<Rightarrow> string" where
  "run_model_name a =
     (if arg_dataset a = ''cifar10''
      then ''ResNet'' @ str_int (arg_n a * 6 + 2) @ ''v'' @ str_int 1 @ ''_CIFAR10''
      else attention_model_name a)"

text \<open>
  The namespace when the configuration is dumped (line 190): the CIFAR-10 branch has
  added \<open>depth\<close>.
\<close>

definition run_args :: "args \<Rightarrow> args" where
  "run_args a =
     (if arg_dataset a = ''cifar10'' then a\<lparr>arg_depth := Some (arg_n a * 6 + 2)\<rparr> else a)"

text \<open>
  The identifier of a run in the words of the specification: the dataset name, the model
  name, the batch size, the epoch count, the learning rate, the optimizer name and a
  timestamp.
\<close>

record run_id =
  id_dataset :: string
  id_model_name :: string
  id_batch_size :: int
  id_epochs :: int
  id_learning_rate :: pyfloat
  id_optimizer_name :: string
  id_timestamp :: string

text \<open>
  The directory of a run in the words of the specification: the components of the
  identifier, one separator between them, under the artifacts prefix
  (\<open>dataset/model_name/b{batch_size}-e{epochs}-lr{learning_rate}/optimizer_name/timestamp\<close>);
  \<open>leaf\<close> is \<open>ckpts\<close> or \<open>logs\<close>.
\<close>

definition run_dir :: "env \<Rightarrow> run_id \<Rightarrow> string \<Rightarrow> string" where
  "run_dir E k leaf =
     expanduser E
       (''~/Documents/DeepLearningData'' @ ''/'' @ id_dataset k @ ''/'' @ id_model_name k
        @ ''/'' @ ''b'' @ str_int (id_batch_size k) @ ''-e'' @ str_int (id_epochs k)
        @ ''-lr'' @ float_repr E (id_learning_rate k)
        @ ''/'' @ id_optimizer_name k @ ''/'' @ id_timestamp k @ ''/'' @ leaf)"

text \<open>
  The directory that lines 182 to 186 build, as a function of the identifier: the same
  components, joined by \<open>os.path.join\<close>.
\<close>

definition joined_dir :: "env \<Rightarrow> run_id \<Rightarrow> string \<Rightarrow> string" where
  "joined_dir E k leaf =
     expanduser E (path_join prefix
       [path_join (id_dataset k)
          [id_model_name k,
           ''b'' @ str_int (id_batch_size k) @ ''-e'' @ str_int (id_epochs k)
             @ ''-lr'' @ float_repr E (id_learning_rate k),
           id_optimizer_name k, id_timestamp k],
        leaf])"

text \<open>The identifier of the run that \<open>main\<close> makes of the namespace \<open>a\<close>.\<close>

definition run_id_of :: "env \<Rightarrow> args \<Rightarrow> run_id" where
  "run_id_of E a =
     \<lparr>id_dataset = arg_dataset a, id_model_name = run_model_name a,
      id_batch_size = arg_batch_size a, id_epochs = arg_epochs a,
      id_learning_rate = arg_learning_rate a, id_optimizer_name = arg_optimizer_name a,
      id_timestamp = now E\<rparr>"

text \<open>
  A path component that \<open>os.path.join\<close> appends after one separator: not empty, no
  separator at either end.
\<close>

definition plain :: "string \<Rightarrow> bool" where
  "plain s = (s \<noteq> [] \<and> hd s \<noteq> CHR ''/'' \<and> last s \<noteq> CHR ''/'')"


fun builds_model :: "event \<Rightarrow> bool" where
  "builds_model (Create_model name k) = True"
| "builds_model (Create_model_cifar10 d v) = True"
| "builds_model Keras_Model = True"
| "builds_model _ = False"

fun is_json_dump :: "event \<Rightarrow> bool" where
  "is_json_dump (Json_dump a p) = True"
| "is_json_dump _ = False"

text \<open>Events that use the model object.\<close>

fun runs_model :: "event \<Rightarrow> bool" where
  "runs_model (Compile m) = True"
| "runs_model (Fit m d b e v) = True"
| "runs_model _ = False"

text \<open>Events that write into one of the run's directories.\<close>

fun uses_dir :: "event \<Rightarrow> bool" where
  "uses_dir (Open_write p) = True"
| "uses_dir (CSVLogger p) = True"
| "uses_dir (TensorBoard p) = True"
| "uses_dir (ModelCheckpoint p) = True"
| "uses_dir _ = False"

text \<open>Events of the training stage proper: the scheduler callback, compile and fit.\<close>

fun trains :: "event \<Rightarrow> bool" where
  "trains (LearningRateScheduler f) = True"
| "trains (Compile m) = True"
| "trains (Fit m d b e v) = True"
| "trains _ = False"

text \<open>The calls of lines 98 to 178: all that \<open>main\<close> does before the paths are built.\<close>

fun setup_event :: "event \<Rightarrow> bool" where
  "setup_event (Print_args a) = True"
| "setup_event (Load_cifar10_sequence b s nrm v) = True"
| "setup_event (Set_random_seed s) = True"
| "setup_event (Random_seed s) = True"
| "setup_event (Np_random_seed s) = True"
| "setup_event (Tf_set_seed s) = True"
| "setup_event Sequence_getitem = True"
| "setup_event (Create_model name k) = True"
| "setup_event Keras_Input = True"
| "setup_event Tf_cast = True"
| "setup_event Tf_pad = True"
| "setup_event Apply_model_core = True"
| "setup_event Keras_Model = True"
| "setup_event (Create_model_cifar10 d v) = True"
| "setup_event _ = False"

subsection \<open>A sample environment and sample invocations\<close>

definition sample_env :: env where
  "sample_env =
     \<lparr>fails = (\<lambda>tr ev. False), now = ''20201104-205700'',
      expanduser = (\<lambda>p. if take 2 p = ''~/'' then ''/home/user'' @ drop 1 p else p),
      float_repr = (\<lambda>x. ''0.1'')\<rparr>"

text \<open>The defaults of the parser, with the seed the random default happened to draw.\<close>

definition default_flags :: "int \<Rightarrow> args" where
  "default_flags s =
     \<lparr>arg_dataset = ''mnist'', arg_num_classes = 10, arg_model_name = ''NoModel'', arg_n = 3,
      arg_version = 1, arg_batch_size = 32, arg_seed = s, arg_validation_split = Finite 0.2,
      arg_norm = False, arg_epochs = 100, arg_optimizer_name = ''SGD'',
      arg_learning_rate = Finite 0.1, arg_weight_decay = Finite 0.0001,
      arg_momentum = Finite 0.9, arg_lr_schedule = ''no_schedule'',
      arg_attention = Some False, arg_attention_type = ''official'', arg_depth = None\<rparr>"

definition cifar10_invocation :: invocation where
  "cifar10_invocation =
     \<lparr>flags = (default_flags 0)\<lparr>arg_dataset := ''cifar10'', arg_lr_schedule := ''cifar10_scheduler''\<rparr>,
      attention_flag = None\<rparr>"

definition default_invocation :: invocation where
  "default_invocation = \<lparr>flags = default_flags 0, attention_flag = None\<rparr>"

definition lenet5_invocation :: invocation where
  "lenet5_invocation =
     \<lparr>flags = (default_flags 0)\<lparr>arg_model_name := ''LeNet5''\<rparr>, attention_flag = None\<rparr>"

definition unscheduled_invocation :: invocation where
  "unscheduled_invocation =
     \<lparr>flags = (default_flags 0)\<lparr>arg_dataset := ''cifar10''\<rparr>, attention_flag = None\<rparr>"

definition attention_invocation :: invocation where
  "attention_invocation =
     \<lparr>flags = (default_flags 0)\<lparr>arg_model_name := ''ResNet18'',
                                 arg_lr_schedule := ''keras_lr_scheduler''\<rparr>,
      attention_flag = Some ''True''\<rparr>"

definition version2_invocation :: invocation where
  "version2_invocation =
     \<lparr>flags = (default_flags 0)\<lparr>arg_dataset := ''cifar10'', arg_n := 3, arg_version := 2\<rparr>,
      attention_flag = None\<rparr>"


definition absolute_invocation :: invocation where
  "absolute_invocation =
     \<lparr>flags = (default_flags 0)\<lparr>arg_dataset := ''/tmp/x'', arg_model_name := ''M''\<rparr>,
      attention_flag = None\<rparr>"

subsection \<open>Reasoning about runs\<close>

text \<open>The outcome and trace of a run satisfy \<open>Q\<close>.\<close>

definition post :: "'a run \<Rightarrow> event list \<Rightarrow> ((error + 'a) \<Rightarrow> event list \<Rightarrow> bool) \<Rightarrow> bool" where
  "post m tr Q = Q (fst (m tr)) (snd (m tr))"

text \<open>A run only appends to the trace, and every event it appends satisfies \<open>ok\<close>.\<close>

definition emits :: "(event \<Rightarrow> bool) \<Rightarrow> 'a run \<Rightarrow> bool" where
  "emits ok m = (\<forall>tr. \<exists>evs. snd (m tr) = tr @ evs \<and> list_all ok evs)"

text \<open>Lines 98 to 145, the calls before the model is set up, and their events.\<close>

fun prepare_event :: "event \<Rightarrow> bool" where
  "prepare_event (Print_args a) = True"
| "prepare_event (Load_cifar10_sequence b s nrm v) = True"
| "prepare_event (Set_random_seed s) = True"
| "prepare_event (Random_seed s) = True"
| "prepare_event (Np_random_seed s) = True"
| "prepare_event (Tf_set_seed s) = True"
| "prepare_event Sequence_getitem = True"
| "prepare_event _ = False"

definition prepare :: "env \<Rightarrow> args \<Rightarrow> unit run" where
  "prepare E a =
     bind (call E (Print_args a)) (\<lambda>_.
     bind (call E (Load_cifar10_sequence (arg_batch_size a) (arg_seed a) (arg_norm a)
                     (arg_validation_split a))) (\<lambda>_.
     bind (set_seed E (arg_seed a)) (\<lambda>_.
     call E Sequence_getitem)))"

text \<open>What the events of lines 180 to 253 may be, for the run's args and model name.\<close>

fun train_event :: "env \<Rightarrow> args \<Rightarrow> string \<Rightarrow> event \<Rightarrow> bool" where
  "train_event E a mn (Makedirs p) = (p = ckpt_dir E a mn \<or> p = log_dir E a mn)"
| "train_event E a mn (Open_write p) = (p = path_join (log_dir E a mn) [''config.json''])"
| "train_event E a mn (Json_dump a' p) = (a' = a \<and> p = path_join (log_dir E a mn) [''config.json''])"
| "train_event E a mn (Close_file p) = (p = path_join (log_dir E a mn) [''config.json''])"
| "train_event E a mn (CSVLogger p) = (p = path_join (log_dir E a mn) [''training.log.csv''])"
| "train_event E a mn (TensorBoard p) = (p = log_dir E a mn)"
| "train_event E a mn (ModelCheckpoint p) = (p = path_join (ckpt_dir E a mn) [ckpt_filename mn])"
| "train_event E a mn (Fit m d b e v) =
     (v = Cifar10_test \<and> b = arg_batch_size a \<and> e = arg_epochs a
      \<and> d = (if float_gt0 (arg_validation_split a) then Split_train else Cifar10_train))"
| "train_event E a mn ev = (\<not> setup_event ev)"

fun writes_config :: "event \<Rightarrow> bool" where
  "writes_config (Makedirs p) = True"
| "writes_config (Open_write p) = True"
| "writes_config (Json_dump a p) = True"
| "writes_config (Close_file p) = True"
| "writes_config _ = False"

text \<open>The events of the later stages when every collaborator returns.\<close>

definition config_events :: "env \<Rightarrow> args \<Rightarrow> string \<Rightarrow> event list" where
  "config_events E a mn =
     [Makedirs (ckpt_dir E a mn), Makedirs (log_dir E a mn),
      Open_write (path_join (log_dir E a mn) [''config.json'']),
      Json_dump a (path_join (log_dir E a mn) [''config.json'']),
      Close_file (path_join (log_dir E a mn) [''config.json''])]"

definition callback_events :: "env \<Rightarrow> args \<Rightarrow> string \<Rightarrow> event list" where
  "callback_events E a mn =
     [CSVLogger (path_join (log_dir E a mn) [''training.log.csv'']),
      TensorBoard (log_dir E a mn),
      ModelCheckpoint (path_join (ckpt_dir E a mn) [ckpt_filename mn])]"

definition fit_events :: "args \<Rightarrow> model \<Rightarrow> event list" where
  "fit_events a m =
     [Print_no_augmentation, Load_cifar10] @
     (if float_gt0 (arg_validation_split a)
      then [Print_validation_split (arg_validation_split a),
            Train_test_split (arg_validation_split a) (arg_seed a),
            Fit m Split_train (arg_batch_size a) (arg_epochs a) Cifar10_test]
      else [Fit m Cifar10_train (arg_batch_size a) (arg_epochs a) Cifar10_test])"

section \<open>Lemmas\<close>

subsection \<open>Outcome and trace of the combinators\<close>

lemma post_ret: "post (ret x) tr Q = Q (Inr x) tr"
  by (simp add: post_def ret_def)

lemma post_raise: "post (raise e) tr Q = Q (Inl e) tr"
  by (simp add: post_def raise_def)

lemma post_call:
  "post (call E ev) tr Q =
     ((fails E tr ev \<longrightarrow> Q (Inl (Collaborator ev)) tr) \<and> (\<not> fails E tr ev \<longrightarrow> Q (Inr ()) (tr @ [ev])))"
  by (simp add: post_def call_def)

lemma post_bind:
  "post (bind m f) tr Q =
     post m tr (\<lambda>r tr'. case r of Inl e \<Rightarrow> Q (Inl e) tr' | Inr x \<Rightarrow> post (f x) tr' Q)"
  by (simp add: post_def bind_def split: prod.splits sum.splits)

lemma post_try_except:
  "post (try_except m h) tr Q =
     post m tr (\<lambda>r tr'. case r of Inl e \<Rightarrow> post h tr' Q | Inr x \<Rightarrow> Q (Inr x) tr')"
  by (simp add: post_def try_except_def split: prod.splits sum.splits)

lemma post_ensure: "post (ensure m ev) tr Q = post m tr (\<lambda>r tr'. Q r (tr' @ [ev]))"
  by (simp add: post_def ensure_def split: prod.splits)

lemma post_read_local:
  "post (read_local name v) tr Q =
     (case v of None \<Rightarrow> Q (Inl (UnboundLocalError name)) tr | Some x \<Rightarrow> Q (Inr x) tr)"
  by (simp add: post_def read_local_def ret_def raise_def split: option.splits)

lemmas post_simps =
  post_ret post_raise post_call post_bind post_try_except post_ensure post_read_local

subsection \<open>Runs that only append\<close>

lemma emits_ret: "emits ok (ret x)"
  by (simp add: emits_def ret_def)

lemma emits_raise: "emits ok (raise e)"
  by (simp add: emits_def raise_def)

lemma emits_call: "ok ev \<Longrightarrow> emits ok (call E ev)"
  by (simp add: emits_def call_def)

lemma emits_read_local: "emits ok (read_local name v)"
  by (simp add: emits_def read_local_def ret_def raise_def split: option.splits)

lemma emits_bind:
  assumes "emits ok m" and "\<And>x tr tr'. m tr = (Inr x, tr') \<Longrightarrow> emits ok (f x)"
  shows "emits ok (bind m f)"
  unfolding emits_def
proof
  fix tr
  obtain evs where m: "snd (m tr) = tr @ evs" "list_all ok evs"
    using assms(1) unfolding emits_def by blast
  show "\<exists>evs. snd (bind m f tr) = tr @ evs \<and> list_all ok evs"
  proof (cases "fst (m tr)")
    case (Inl e)
    then have "bind m f tr = (Inl e, snd (m tr))"
      by (cases "m tr") (simp add: bind_def)
    with m show ?thesis by simp
  next
    case (Inr x)
    then have mx: "m tr = (Inr x, tr @ evs)"
      using m(1) by (metis prod.collapse)
    then obtain evs' where f: "snd (f x (tr @ evs)) = (tr @ evs) @ evs'" "list_all ok evs'"
      using assms(2) unfolding emits_def by blast
    from mx have "bind m f tr = f x (tr @ evs)"
      by (simp add: bind_def)
    with f m(2) show ?thesis by simp
  qed
qed

lemma emits_try_except:
  assumes "emits ok m" and "emits ok h"
  shows "emits ok (try_except m h)"
  unfolding emits_def
proof
  fix tr
  obtain evs where m: "snd (m tr) = tr @ evs" "list_all ok evs"
    using assms(1) unfolding emits_def by blast
  obtain evs' where h: "snd (h (tr @ evs)) = (tr @ evs) @ evs'" "list_all ok evs'"
    using assms(2) unfolding emits_def by blast
  show "\<exists>evs. snd (try_except m h tr) = tr @ evs \<and> list_all ok evs"
  proof (cases "fst (m tr)")
    case (Inl e)
    then have "try_except m h tr = h (tr @ evs)"
      using m(1) by (cases "m tr") (simp add: try_except_def)
    with h m(2) show ?thesis by simp
  next
    case (Inr x)
    then have "snd (try_except m h tr) = snd (m tr)"
      by (cases "m tr") (simp add: try_except_def)
    with m show ?thesis by simp
  qed
qed

lemma emits_ensure:
  assumes "emits ok m" and "ok ev"
  shows "emits ok (ensure m ev)"
  unfolding emits_def
proof
  fix tr
  obtain evs where m: "snd (m tr) = tr @ evs" "list_all ok evs"
    using assms(1) unfolding emits_def by blast
  have "snd (ensure m ev tr) = tr @ (evs @ [ev])"
    using m(1) by (cases "m tr") (simp add: ensure_def)
  moreover have "list_all ok (evs @ [ev])"
    using m(2) assms(2) by simp
  ultimately show "\<exists>evs. snd (ensure m ev tr) = tr @ evs \<and> list_all ok evs"
    by blast
qed

lemmas emits_rules =
  emits_ret emits_raise emits_call emits_read_local emits_bind emits_try_except emits_ensure

subsection \<open>The stages of \<open>main\<close>, whatever the collaborators do\<close>

lemma emits_setup_model: "emits setup_event (setup_model E a mn)"
  unfolding setup_model_def Let_def
  by (auto intro!: emits_rules split: option.splits)

lemma call_returns: "\<forall>tr ev. \<not> fails E tr ev \<Longrightarrow> call E ev tr = (Inr (), tr @ [ev])"
  by (simp add: call_def)

lemma post_eq: "m tr = (r, tr') \<Longrightarrow> post m tr Q \<Longrightarrow> Q r tr'"
  by (simp add: post_def)

lemma setup_model_post:
  "post (setup_model E a mn) tr (\<lambda>r tr'.
     case r of
       Inl e \<Rightarrow>
         (e = ValueError (arg_model_name a) \<and> arg_dataset a = ''mnist''
            \<and> arg_model_name a \<notin> set available_models \<and> tr' = tr)
         \<or> (\<exists>ev tr''. e = Collaborator ev \<and> fails E tr'' ev)
     | Inr (model, mn', a') \<Rightarrow>
         mn' = (if arg_dataset a = ''cifar10''
                then ''ResNet'' @ str_int (arg_n a * 6 + 2) @ ''v'' @ str_int 1 @ ''_CIFAR10''
                else mn)
         \<and> a' = (if arg_dataset a = ''cifar10'' then a\<lparr>arg_depth := Some (arg_n a * 6 + 2)\<rparr> else a)
         \<and> (arg_dataset a = ''mnist'' \<longrightarrow>
              arg_model_name a \<in> set available_models
              \<and> (model = None \<longleftrightarrow> mn \<notin> set resnet_family)
              \<and> (mn \<notin> set resnet_family \<longrightarrow> tr' = tr))
         \<and> (arg_dataset a = ''cifar10'' \<longrightarrow>
              model = Some (Created_cifar10 (arg_n a * 6 + 2) (arg_version a))
              \<and> tr' = tr @ [Create_model_cifar10 (arg_n a * 6 + 2) (arg_version a)]))"
  unfolding setup_model_def Let_def compute_depth_def
  by (auto simp add: post_simps)

lemma write_config_post:
  "post (write_config E a mn) tr (\<lambda>r tr'.
     let cd = ckpt_dir E a mn; ld = log_dir E a mn; f = path_join ld [''config.json''] in
       (r = Inl (Collaborator (Makedirs cd)) \<and> tr' = tr \<and> fails E tr (Makedirs cd))
     \<or> (r = Inl (Collaborator (Makedirs ld)) \<and> tr' = tr @ [Makedirs cd]
          \<and> fails E tr' (Makedirs ld))
     \<or> (r = Inl (Collaborator (Open_write f)) \<and> tr' = tr @ [Makedirs cd, Makedirs ld]
          \<and> fails E tr' (Open_write f))
     \<or> (r = Inl (Collaborator (Json_dump a f))
          \<and> tr' = tr @ [Makedirs cd, Makedirs ld, Open_write f, Close_file f]
          \<and> fails E (tr @ [Makedirs cd, Makedirs ld, Open_write f]) (Json_dump a f))
     \<or> (r = Inr ()
          \<and> tr' = tr @ [Makedirs cd, Makedirs ld, Open_write f, Json_dump a f, Close_file f]))"
  unfolding write_config_def Let_def
  by (simp add: post_simps)

lemma compile_model_post:
  "post (compile_model E a lr model) tr (\<lambda>r tr'.
     \<exists>evs. tr' = tr @ evs
       \<and> (case r of
            Inr m \<Rightarrow> model = Some m \<and> lr \<noteq> None
          | Inl e \<Rightarrow> list_all (\<lambda>ev. \<not> runs_model ev) evs
                     \<and> (lr = None \<longrightarrow> list_all (\<lambda>ev. \<not> trains ev) evs))
       \<and> list_all (\<lambda>ev. \<not> setup_event ev) evs)"
  unfolding compile_model_def
  by (auto simp add: post_simps split: option.splits)

lemma bind_assoc: "bind (bind m f) g = bind m (\<lambda>x. bind (f x) g)"
  by (rule ext) (simp add: bind_def split: prod.splits sum.splits)

lemma main_prepare:
  "cmd_parser argv = Inr a \<Longrightarrow>
   main E argv =
     bind (prepare E a) (\<lambda>_.
     bind (setup_model E a (attention_model_name a)) (\<lambda>(model, model_name, a').
     train E a' (select_lr_schedule_fn (arg_lr_schedule a)) model model_name))"
  by (simp add: main_def prepare_def Let_def bind_assoc)

lemma prepare_post:
  "post (prepare E a) tr (\<lambda>r tr'.
     \<exists>evs. tr' = tr @ evs \<and> list_all prepare_event evs
       \<and> (case r of Inl e \<Rightarrow> \<exists>ev tr''. e = Collaborator ev \<and> fails E tr'' ev | Inr u \<Rightarrow> True))"
  unfolding prepare_def set_seed_def
  by (auto simp add: post_simps)

lemma prepare_returns:
  "\<forall>tr ev. \<not> fails E tr ev \<Longrightarrow>
   prepare E a tr =
     (Inr (), tr @ [Print_args a,
        Load_cifar10_sequence (arg_batch_size a) (arg_seed a) (arg_norm a) (arg_validation_split a),
        Set_random_seed (arg_seed a), Sequence_getitem])"
  by (simp add: prepare_def set_seed_def bind_def try_except_def call_returns)

lemma bind_ret: "bind (ret x) f = f x"
  by (rule ext) (simp add: bind_def ret_def)

lemma bind_if: "bind (if c then m else m') f = (if c then bind m f else bind m' f)"
  by simp

lemma fit_model_flat:
  "fit_model E a m =
     bind (call E Print_no_augmentation) (\<lambda>_.
     bind (call E Load_cifar10) (\<lambda>_.
     if float_gt0 (arg_validation_split a) then
       bind (call E (Print_validation_split (arg_validation_split a))) (\<lambda>_.
       bind (call E (Train_test_split (arg_validation_split a) (arg_seed a))) (\<lambda>_.
       call E (Fit m Split_train (arg_batch_size a) (arg_epochs a) Cifar10_test)))
     else call E (Fit m Cifar10_train (arg_batch_size a) (arg_epochs a) Cifar10_test)))"
  by (simp add: fit_model_def bind_assoc bind_ret bind_if)

lemma emits_write_config:
  "emits (\<lambda>ev. train_event E a mn ev \<and> writes_config ev) (write_config E a mn)"
  unfolding write_config_def Let_def by (intro emits_rules) simp_all

lemma emits_later:
  "emits (\<lambda>ev. train_event E a mn ev \<and> \<not> writes_config ev)
     (bind (compile_model E a lr model) (\<lambda>m.
      bind (make_callbacks E a mn) (\<lambda>_. fit_model E a m)))"
  unfolding compile_model_def make_callbacks_def fit_model_flat
  by (auto intro!: emits_rules)

lemma emits_weaken: "emits ok m \<Longrightarrow> (\<And>ev. ok ev \<Longrightarrow> ok' ev) \<Longrightarrow> emits ok' m"
  unfolding emits_def by (metis (mono_tags, lifting) list_all_length)

lemma emits_train: "emits (train_event E a mn) (train E a lr model mn)"
  unfolding train_def
  by (rule emits_bind) (auto intro: emits_weaken[OF emits_write_config] emits_weaken[OF emits_later])

lemma train_split:
  assumes "train E a lr model mn tr = (r, tr')"
  shows "(\<exists>e. write_config E a mn tr = (Inl e, tr') \<and> r = Inl e)
     \<or> (\<exists>tr1 later. write_config E a mn tr = (Inr (), tr1) \<and> tr' = tr1 @ later
          \<and> list_all (\<lambda>ev. train_event E a mn ev \<and> \<not> writes_config ev) later)"
proof (cases "write_config E a mn tr")
  case (Pair r1 tr1)
  show ?thesis
  proof (cases r1)
    case (Inl e)
    with Pair assms have "r = Inl e" "tr' = tr1"
      by (simp_all add: train_def bind_def)
    with Pair Inl show ?thesis by simp
  next
    case (Inr u)
    let ?later = "bind (compile_model E a lr model) (\<lambda>m. bind (make_callbacks E a mn) (\<lambda>_. fit_model E a m))"
    from Pair Inr assms have "?later tr1 = (r, tr')"
      by (simp add: train_def bind_def)
    moreover obtain evs where "snd (?later tr1) = tr1 @ evs"
      "list_all (\<lambda>ev. train_event E a mn ev \<and> \<not> writes_config ev) evs"
      using emits_later[of E a mn lr model] unfolding emits_def by blast
    ultimately have "tr' = tr1 @ evs" by simp
    with Pair Inr \<open>list_all _ evs\<close> show ?thesis by simp
  qed
qed

subsection \<open>The stages of \<open>main\<close> when every collaborator returns\<close>

lemma write_config_returns:
  "\<forall>tr ev. \<not> fails E tr ev \<Longrightarrow> write_config E a mn tr = (Inr (), tr @ config_events E a mn)"
  by (simp add: write_config_def config_events_def Let_def bind_def ensure_def call_returns)

lemma compile_model_returns:
  "\<forall>tr ev. \<not> fails E tr ev \<Longrightarrow>
   compile_model E a lr model tr =
     (let opt = Create_optimizer (arg_optimizer_name a) (arg_learning_rate a)
                  (arg_weight_decay a) (arg_momentum a) in
      case lr of
        None \<Rightarrow> (Inl (UnboundLocalError ''lr_schedule_fn''), tr @ [opt])
      | Some fn \<Rightarrow>
          (case model of
             None \<Rightarrow> (Inl (UnboundLocalError ''model''),
                       tr @ [opt, LearningRateScheduler fn, CategoricalCrossentropy,
                             BinaryAccuracy, CategoricalAccuracy])
           | Some m \<Rightarrow> (Inr m,
                       tr @ [opt, LearningRateScheduler fn, CategoricalCrossentropy,
                             BinaryAccuracy, CategoricalAccuracy, Compile m])))"
  by (simp add: compile_model_def read_local_def bind_def ret_def raise_def call_returns
      split: option.splits)

lemma make_callbacks_returns:
  "\<forall>tr ev. \<not> fails E tr ev \<Longrightarrow> make_callbacks E a mn tr = (Inr (), tr @ callback_events E a mn)"
  by (simp add: make_callbacks_def callback_events_def bind_def call_returns)

lemma fit_model_returns:
  "\<forall>tr ev. \<not> fails E tr ev \<Longrightarrow> fit_model E a m tr = (Inr (), tr @ fit_events a m)"
  by (simp add: fit_model_flat fit_events_def bind_def call_returns)

lemma train_returns:
  assumes "\<forall>tr ev. \<not> fails E tr ev"
  shows "train E a lr model mn tr =
     (let opt = Create_optimizer (arg_optimizer_name a) (arg_learning_rate a)
                  (arg_weight_decay a) (arg_momentum a) in
      case lr of
        None \<Rightarrow> (Inl (UnboundLocalError ''lr_schedule_fn''), tr @ config_events E a mn @ [opt])
      | Some fn \<Rightarrow>
          (case model of
             None \<Rightarrow> (Inl (UnboundLocalError ''model''),
                       tr @ config_events E a mn
                          @ [opt, LearningRateScheduler fn, CategoricalCrossentropy,
                             BinaryAccuracy, CategoricalAccuracy])
           | Some m \<Rightarrow> (Inr (),
                       tr @ config_events E a mn
                          @ [opt, LearningRateScheduler fn, CategoricalCrossentropy,
                             BinaryAccuracy, CategoricalAccuracy, Compile m]
                          @ callback_events E a mn @ fit_events a m)))"
  unfolding train_def
  by (simp add: bind_def write_config_returns[OF assms] compile_model_returns[OF assms]
      make_callbacks_returns[OF assms] fit_model_returns[OF assms] Let_def split: option.splits)

lemma setup_model_returns:
  "\<forall>tr ev. \<not> fails E tr ev \<Longrightarrow>
   setup_model E a mn tr =
     (if arg_dataset a = ''mnist'' then
        (if arg_model_name a \<notin> set available_models
         then (Inl (ValueError (arg_model_name a)), tr)
         else if mn \<in> set resnet_family
         then (Inr (Some (Padded (Created mn (arg_num_classes a))), mn, a),
               tr @ [Create_model mn (arg_num_classes a), Keras_Input, Tf_cast, Tf_pad,
                     Apply_model_core, Keras_Model])
         else (Inr (None, mn, a), tr))
      else if arg_dataset a = ''cifar10'' then
        (Inr (Some (Created_cifar10 (arg_n a * 6 + 2) (arg_version a)),
              ''ResNet'' @ str_int (arg_n a * 6 + 2) @ ''v'' @ str_int 1 @ ''_CIFAR10'',
              a\<lparr>arg_depth := Some (arg_n a * 6 + 2)\<rparr>),
         tr @ [Create_model_cifar10 (arg_n a * 6 + 2) (arg_version a)])
      else (Inr (Some (Created mn (arg_num_classes a)), mn, a),
            tr @ [Create_model mn (arg_num_classes a)]))"
  by (simp add: setup_model_def compute_depth_def Let_def bind_def ret_def raise_def call_returns)

lemma main_returns:
  assumes "\<forall>tr ev. \<not> fails E tr ev" and "cmd_parser argv = Inr a"
  shows "main E argv tr =
     (case setup_model E a (attention_model_name a)
             (tr @ [Print_args a,
                Load_cifar10_sequence (arg_batch_size a) (arg_seed a) (arg_norm a)
                  (arg_validation_split a),
                Set_random_seed (arg_seed a), Sequence_getitem]) of
        (Inl e, tr') \<Rightarrow> (Inl e, tr')
      | (Inr (model, mn, a'), tr') \<Rightarrow>
          train E a' (select_lr_schedule_fn (arg_lr_schedule a)) model mn tr')"
  by (simp add: main_prepare[OF assms(2)] bind_def prepare_returns[OF assms(1)]
      split: prod.splits sum.splits)

subsection \<open>Where a run of \<open>main\<close> can end\<close>

text \<open>
  In \<open>cmd_parser\<close>; in one of the calls before the model is set up; in
  \<open>setup_model\<close>; or in what follows it.
\<close>

lemma main_cases:
  assumes "main E argv tr0 = (r, tr)"
  obtains
    (at_parser) e where "cmd_parser argv = Inl e" "r = Inl e" "tr = tr0"
  | (at_prepare) a pre ev tr'' where "cmd_parser argv = Inr a" "list_all prepare_event pre"
      "tr = tr0 @ pre" "r = Inl (Collaborator ev)" "fails E tr'' ev"
  | (at_setup) a pre e where "cmd_parser argv = Inr a" "list_all prepare_event pre"
      "setup_model E a (attention_model_name a) (tr0 @ pre) = (Inl e, tr)" "r = Inl e"
  | (at_train) a pre model mn a' tr1 where "cmd_parser argv = Inr a" "list_all prepare_event pre"
      "setup_model E a (attention_model_name a) (tr0 @ pre) = (Inr (model, mn, a'), tr1)"
      "train E a' (select_lr_schedule_fn (arg_lr_schedule a)) model mn tr1 = (r, tr)"
proof (cases "cmd_parser argv")
  case (Inl e)
  with assms have "r = Inl e" "tr = tr0"
    by (simp_all add: main_def raise_def)
  with Inl show ?thesis by (rule at_parser)
next
  case (Inr a)
  note m = main_prepare[OF Inr, of E]
  obtain rp trp where p: "prepare E a tr0 = (rp, trp)"
    by (cases "prepare E a tr0")
  from post_eq[OF p prepare_post] obtain pre where pre: "trp = tr0 @ pre" "list_all prepare_event pre"
    and fail: "case rp of Inl e \<Rightarrow> \<exists>ev tr''. e = Collaborator ev \<and> fails E tr'' ev | Inr u \<Rightarrow> True"
    by blast
  show ?thesis
  proof (cases rp)
    case (Inl e)
    with fail obtain ev tr'' where "e = Collaborator ev" "fails E tr'' ev" by auto
    moreover from Inl p assms m have "r = Inl e" "tr = trp"
      by (simp_all add: bind_def)
    ultimately show ?thesis using pre Inr by (auto intro: at_prepare)
  next
    case u: (Inr u)
    obtain rs trs where s: "setup_model E a (attention_model_name a) trp = (rs, trs)"
      by (cases "setup_model E a (attention_model_name a) trp")
    show ?thesis
    proof (cases rs)
      case (Inl e)
      with u p s assms m have "r = Inl e" "tr = trs"
        by (simp_all add: bind_def)
      with Inl s pre Inr show ?thesis by (auto intro: at_setup)
    next
      case x: (Inr x)
      obtain model mn a' where x': "x = (model, mn, a')" by (cases x)
      with x u p s assms m
      have "train E a' (select_lr_schedule_fn (arg_lr_schedule a)) model mn trs = (r, tr)"
        by (simp add: bind_def)
      with x x' s pre Inr show ?thesis by (auto intro: at_train)
    qed
  qed
qed

subsection \<open>Facts about parsing, traces and paths\<close>

lemmas path_defs = ckpt_dir_def log_dir_def subfix_def prefix_def path_join_def join_step_def
  str_int_def digit_char_def ckpt_filename_def

lemma available_models_list:
  "available_models =
     [''LeNet5'', ''AttentionLeNet5'', ''LeCunLeNet5'',
      ''ResNet18'', ''ResNet34'', ''ResNet50'', ''ResNet101'', ''ResNet152'']"
  by (simp add: available_models_def resnet_family_def)

lemma sample_env_returns: "\<forall>tr ev. \<not> fails sample_env tr ev"
  by (simp add: sample_env_def)

lemma cmd_parser_flags:
  assumes "cmd_parser argv = Inr a"
  shows "\<exists>v. a = (flags argv)\<lparr>arg_attention := v, arg_depth := None\<rparr>"
    and "arg_attention_type a \<in> set [''official'', ''senet'']"
    and "parse_args argv = Inr a"
  using assms
  by (auto simp add: cmd_parser_def parse_args_def split: option.splits sum.splits if_splits)

lemma prepare_not_builds: "list_all prepare_event pre \<Longrightarrow> \<not> list_ex builds_model pre"
  by (induction pre) (auto elim: prepare_event.elims)

lemma cifar10_depth:
  assumes "arg_dataset a = ''cifar10''" and "setup_model E a mn tr = (Inr (model, mn', a'), tr')"
  shows "arg_depth a' = Some (arg_n a * 6 + 2)"
    and "model = Some (Created_cifar10 (arg_n a * 6 + 2) (arg_version a))"
  using post_eq[OF assms(2) setup_model_post] assms(1) by simp_all

lemma setup_model_unknown:
  "arg_dataset a = ''mnist'' \<Longrightarrow> arg_model_name a \<notin> set available_models \<Longrightarrow>
   setup_model E a mn = raise (ValueError (arg_model_name a))"
  by (simp add: setup_model_def)

lemma list_allD: "list_all P xs \<Longrightarrow> x \<in> set xs \<Longrightarrow> P x"
  by (simp add: list_all_iff)

lemma setup_only:
  "cmd_parser argv = Inr a \<Longrightarrow> list_all setup_event tr \<Longrightarrow>
   \<exists>a pre evs. cmd_parser argv = Inr a \<and> tr = pre @ evs \<and> list_all setup_event pre
       \<and> list_all (train_event E (run_args a) (run_model_name a)) evs"
  by (intro exI[of _ a] exI[of _ tr] exI[of _ "[]"]) simp

lemma prepare_setup_event: "prepare_event ev \<Longrightarrow> setup_event ev"
  by (cases ev) simp_all

lemma setup_model_Inr:
  assumes "setup_model E a mn tr = (Inr (model, mn', a'), tr')"
  shows "mn' = (if arg_dataset a = ''cifar10''
                then ''ResNet'' @ str_int (arg_n a * 6 + 2) @ ''v'' @ str_int 1 @ ''_CIFAR10''
                else mn)"
    and "a' = run_args a"
    and "arg_dataset a = ''mnist'' \<Longrightarrow> arg_model_name a \<in> set available_models"
    and "arg_dataset a = ''mnist'' \<Longrightarrow> (model = None) = (mn \<notin> set resnet_family)"
    and "arg_dataset a = ''mnist'' \<Longrightarrow> mn \<notin> set resnet_family \<Longrightarrow> tr' = tr"
  using post_eq[OF assms setup_model_post] by (simp_all add: run_args_def)

lemma setup_model_trace:
  assumes "setup_model E a mn tr = (r, tr')"
  shows "\<exists>evs. tr' = tr @ evs \<and> list_all setup_event evs"
  using emits_setup_model[of E a mn] assms unfolding emits_def by (metis snd_conv)

lemma train_trace:
  assumes "train E a lr model mn tr = (r, tr')"
  shows "\<exists>evs. tr' = tr @ evs \<and> list_all (train_event E a mn) evs"
  using emits_train[of E a mn lr model] assms unfolding emits_def by (metis snd_conv)

lemma main_trace:
  assumes "main E argv [] = (r, tr)"
  shows "tr = [] \<or>
    (\<exists>a pre evs. cmd_parser argv = Inr a \<and> tr = pre @ evs \<and> list_all setup_event pre
       \<and> list_all (train_event E (run_args a) (run_model_name a)) evs)"
  using assms
proof (cases rule: main_cases)
  case (at_parser e)
  then show ?thesis by simp
next
  case (at_prepare a pre ev tr'')
  then have "list_all setup_event tr"
    by (auto simp add: list_all_iff prepare_setup_event)
  from setup_only[OF at_prepare(1) this] show ?thesis by (rule disjI2)
next
  case (at_setup a pre e)
  from setup_model_trace[OF at_setup(3)] at_setup(2) have "list_all setup_event tr"
    by (auto simp add: list_all_iff prepare_setup_event)
  from setup_only[OF at_setup(1) this] show ?thesis by (rule disjI2)
next
  case (at_train a pre model mn a' tr1)
  from setup_model_trace[OF at_train(3)] at_train(2) have "list_all setup_event tr1"
    by (auto simp add: list_all_iff prepare_setup_event)
  moreover from setup_model_Inr(1,2)[OF at_train(3)] have "mn = run_model_name a" "a' = run_args a"
    by (simp_all add: run_model_name_def)
  moreover note train_trace[OF at_train(4)] at_train(1)
  ultimately show ?thesis by auto
qed

lemma run_args_dirs:
  "ckpt_dir E (run_args a) mn = ckpt_dir E a mn" "log_dir E (run_args a) mn = log_dir E a mn"
  by (simp_all add: run_args_def ckpt_dir_def log_dir_def subfix_def)

lemma dirs_joined_dir:
  "ckpt_dir E a (run_model_name a) = joined_dir E (run_id_of E a) ''ckpts''"
  "log_dir E a (run_model_name a) = joined_dir E (run_id_of E a) ''logs''"
  by (simp_all add: ckpt_dir_def log_dir_def subfix_def joined_dir_def run_id_of_def)

lemma setup_not_makedirs: "list_all setup_event pre \<Longrightarrow> Makedirs p \<notin> set pre"
  by (auto simp add: list_all_iff)

lemma cifar10_invocation_parsed:
  "cmd_parser cifar10_invocation = Inr (flags cifar10_invocation)"
  by (simp add: cifar10_invocation_def cmd_parser_def parse_args_def default_flags_def)

lemma cifar10_invocation_run:
  "main sample_env cifar10_invocation [] =
     (let a = flags cifar10_invocation; a' = a\<lparr>arg_depth := Some 20\<rparr>; mn = ''ResNet20v1_CIFAR10'';
          m = Created_cifar10 20 1 in
      (Inr (),
       [Print_args a, Load_cifar10_sequence 32 0 False (Finite 0.2), Set_random_seed 0,
        Sequence_getitem, Create_model_cifar10 20 1]
       @ config_events sample_env a' mn
       @ [Create_optimizer ''SGD'' (Finite 0.1) (Finite 0.0001) (Finite 0.9),
          LearningRateScheduler Cifar10_scheduler, CategoricalCrossentropy, BinaryAccuracy,
          CategoricalAccuracy, Compile m]
       @ callback_events sample_env a' mn
       @ [Print_no_augmentation, Load_cifar10, Print_validation_split (Finite 0.2),
          Train_test_split (Finite 0.2) 0, Fit m Split_train 32 100 Cifar10_test]))"
  apply (simp add: main_returns[OF sample_env_returns cifar10_invocation_parsed]
      setup_model_returns[OF sample_env_returns] train_returns[OF sample_env_returns])
  apply (simp add: cifar10_invocation_def default_flags_def select_lr_schedule_fn_def
      str_int_def digit_char_def fit_events_def Let_def)
  done

lemma sample_ckpt_dir:
  "ckpt_dir sample_env ((flags cifar10_invocation)\<lparr>arg_depth := Some 20\<rparr>) ''ResNet20v1_CIFAR10''
   = ''/home/user/Documents/DeepLearningData/cifar10/ResNet20v1_CIFAR10/b32-e100-lr0.1/SGD/20201104-205700/ckpts''"
  by (simp add: path_defs sample_env_def cifar10_invocation_def default_flags_def)

lemma setup_no_dump: "list_all setup_event pre \<Longrightarrow> filter is_json_dump pre = []"
  by (induction pre) (auto elim: setup_event.elims)

lemma later_no_dump:
  "list_all (\<lambda>ev. train_event E a mn ev \<and> \<not> writes_config ev) later \<Longrightarrow>
   filter is_json_dump later = [] \<and> filter (\<lambda>ev. \<exists>p. ev = Makedirs p) later = []"
  by (induction later) (auto elim: is_json_dump.elims)

lemma train_dumps:
  assumes "train E a lr model mn tr = (r, tr')"
  shows "\<exists>evs. tr' = tr @ evs \<and> length (filter is_json_dump evs) \<le> 1
     \<and> ((\<exists>p. Makedirs p \<in> set evs) \<and> (\<forall>tr p. \<not> fails E tr (Makedirs p))
          \<and> (\<forall>tr p. \<not> fails E tr (Open_write p)) \<and> (\<forall>tr a p. \<not> fails E tr (Json_dump a p))
        \<longrightarrow> length (filter is_json_dump evs) = 1)"
  using train_split[OF assms]
proof (elim disjE exE conjE)
  fix e
  assume wc: "write_config E a mn tr = (Inl e, tr')"
  from post_eq[OF wc write_config_post] show ?thesis
    by (auto simp add: Let_def)
next
  fix tr1 later
  assume wc: "write_config E a mn tr = (Inr (), tr1)" and tr': "tr' = tr1 @ later"
    and later: "list_all (\<lambda>ev. train_event E a mn ev \<and> \<not> writes_config ev) later"
  from post_eq[OF wc write_config_post] tr' later_no_dump[OF later] show ?thesis
    by (auto simp add: Let_def)
qed

lemma split_after_two:
  assumes "tr1 @ ev # tr2 = pre @ a # b # rest" and "ev \<notin> set pre" and "ev \<noteq> a" and "ev \<noteq> b"
  shows "a \<in> set tr1 \<and> b \<in> set tr1"
  using assms
  by (auto simp add: append_eq_append_conv2 append_eq_Cons_conv Cons_eq_append_conv)

lemma train_starts:
  assumes "train E a lr model mn tr = (r, tr')"
  shows "(\<exists>evs. tr' = tr @ evs \<and> list_all (\<lambda>ev. \<not> uses_dir ev) evs)
     \<or> (\<exists>rest. tr' = tr @ Makedirs (ckpt_dir E a mn) # Makedirs (log_dir E a mn) # rest)"
  using train_split[OF assms]
proof (elim disjE exE conjE)
  fix e
  assume wc: "write_config E a mn tr = (Inl e, tr')"
  from post_eq[OF wc write_config_post] show ?thesis
    by (auto simp add: Let_def)
next
  fix tr1 later
  assume wc: "write_config E a mn tr = (Inr (), tr1)" and tr': "tr' = tr1 @ later"
  from post_eq[OF wc write_config_post] tr' show ?thesis
    by (auto simp add: Let_def)
qed

lemma setup_not_uses: "list_all setup_event pre \<Longrightarrow> uses_dir ev \<Longrightarrow> ev \<notin> set pre"
  by (cases ev) (auto simp add: list_all_iff)

lemma cmd_parser_validation_split:
  "cmd_parser argv = Inr a \<Longrightarrow> arg_validation_split (run_args a) = arg_validation_split (flags argv)"
  using cmd_parser_flags(1)[of argv a] by (auto simp add: run_args_def)

lemma setup_not_fit: "list_all setup_event pre \<Longrightarrow> Fit m d b e v \<notin> set pre"
  by (auto simp add: list_all_iff)

lemma train_stops:
  assumes "train E a lr model mn tr = (r, tr')" and "lr = None \<or> model = None"
  shows "(\<exists>e. r = Inl e) \<and> (\<exists>evs. tr' = tr @ evs \<and> list_all (\<lambda>ev. \<not> runs_model ev) evs
           \<and> list_all (\<lambda>ev. \<not> setup_event ev) evs
           \<and> (lr = None \<longrightarrow> list_all (\<lambda>ev. \<not> trains ev) evs))"
proof (cases "write_config E a mn tr")
  case (Pair r1 tr1)
  obtain evs1 where evs1: "tr1 = tr @ evs1"
    "list_all (\<lambda>ev. train_event E a mn ev \<and> writes_config ev) evs1"
    using emits_write_config[of E a mn] Pair unfolding emits_def by (metis snd_conv)
  have w: "list_all (\<lambda>ev. \<not> runs_model ev) evs1 \<and> list_all (\<lambda>ev. \<not> trains ev) evs1
      \<and> list_all (\<lambda>ev. \<not> setup_event ev) evs1"
    using evs1(2) by (induction evs1) (auto elim: writes_config.elims)
  show ?thesis
  proof (cases r1)
    case (Inl e)
    with Pair assms(1) have "r = Inl e" "tr' = tr1"
      by (simp_all add: train_def bind_def)
    with evs1 w show ?thesis by auto
  next
    case (Inr u)
    obtain r2 tr2 where c: "compile_model E a lr model tr1 = (r2, tr2)"
      by (cases "compile_model E a lr model tr1")
    from post_eq[OF c compile_model_post] assms(2) obtain e evs2 where r2: "r2 = Inl e"
      and evs2: "tr2 = tr1 @ evs2" "list_all (\<lambda>ev. \<not> runs_model ev) evs2"
        "lr = None \<longrightarrow> list_all (\<lambda>ev. \<not> trains ev) evs2"
        "list_all (\<lambda>ev. \<not> setup_event ev) evs2"
      by (cases r2) auto
    from Pair Inr c r2 assms(1) have "r = Inl e" "tr' = tr2"
      by (simp_all add: train_def bind_def)
    with evs1 evs2 w show ?thesis by auto
  qed
qed

lemma setup_not_trains: "list_all setup_event pre \<Longrightarrow> \<not> list_ex trains pre \<and> \<not> list_ex runs_model pre"
  by (induction pre) (auto elim: setup_event.elims)

lemma cmd_parser_lr_schedule:
  "cmd_parser argv = Inr a \<Longrightarrow> arg_lr_schedule a = arg_lr_schedule (flags argv)"
  using cmd_parser_flags(1)[of argv a] by auto

lemma setup_model_unassigned:
  "arg_dataset a = ''mnist'' \<Longrightarrow> arg_model_name a \<in> set available_models \<Longrightarrow>
   mn \<notin> set resnet_family \<Longrightarrow> setup_model E a mn = ret (None, mn, a)"
  by (simp add: setup_model_def)

lemma attention_rewrite:
  assumes "cmd_parser argv = Inr a" and "truthy (arg_attention a)"
  shows "attention_model_name a \<in> set [''AttentionLeNet5_SeNet'', ''AttentionLeNet5_Official'']"
    and "attention_model_name a \<notin> set resnet_family"
  using cmd_parser_flags(2)[OF assms(1)] assms(2)
  by (auto simp add: attention_model_name_def resnet_family_def)

lemma builds_model_setup: "builds_model ev \<Longrightarrow> setup_event ev"
  by (cases ev) simp_all

lemma join_step_plain:
  "plain b \<Longrightarrow> path \<noteq> [] \<Longrightarrow> last path \<noteq> CHR ''/'' \<Longrightarrow> join_step path b = path @ ''/'' @ b"
  by (simp add: join_step_def plain_def)

lemma joined_dir_plain:
  assumes "plain (id_dataset k)" "plain (id_model_name k)"
    "plain (float_repr E (id_learning_rate k))" "plain (id_optimizer_name k)"
    "plain (id_timestamp k)" "plain leaf"
  shows "joined_dir E k leaf = run_dir E k leaf"
proof -
  let ?run = "''b'' @ str_int (id_batch_size k) @ ''-e'' @ str_int (id_epochs k) @ ''-lr''
    @ float_repr E (id_learning_rate k)"
  let ?sub = "id_dataset k @ ''/'' @ id_model_name k @ ''/'' @ ?run @ ''/''
    @ id_optimizer_name k @ ''/'' @ id_timestamp k"
  let ?top = "''~/Documents/DeepLearningData''"
  have r: "plain ?run"
    using assms(3) by (simp add: plain_def)
  have p: "prefix = ?top"
    by (simp add: prefix_def path_join_def join_step_def)
  have s: "path_join (id_dataset k) [id_model_name k, ?run, id_optimizer_name k, id_timestamp k]
      = ?sub"
    using assms r by (simp add: path_join_def join_step_plain plain_def)
  have ps: "plain ?sub"
    using assms by (simp add: plain_def)
  have j1: "join_step ?top ?sub = ?top @ ''/'' @ ?sub"
    by (rule join_step_plain[OF ps]) simp_all
  have l1: "last (?top @ ''/'' @ ?sub) \<noteq> CHR ''/''"
    using ps by (simp add: plain_def)
  have j2: "join_step (?top @ ''/'' @ ?sub) leaf = (?top @ ''/'' @ ?sub) @ ''/'' @ leaf"
    by (rule join_step_plain[OF assms(6) _ l1]) simp
  have "path_join ?top [?sub, leaf] = (?top @ ''/'' @ ?sub) @ ''/'' @ leaf"
    unfolding path_join_def foldl.simps j1 j2 ..
  then show ?thesis
    unfolding joined_dir_def run_dir_def p s by simp
qed

lemma plain_leaves: "plain ''ckpts''" "plain ''logs''"
  by (simp_all add: plain_def)


lemma absolute_invocation_parsed:
  "cmd_parser absolute_invocation = Inr (flags absolute_invocation)"
  by (simp add: absolute_invocation_def cmd_parser_def parse_args_def default_flags_def)

lemma absolute_invocation_trace:
  "snd (main sample_env absolute_invocation []) =
     [Print_args (flags absolute_invocation), Load_cifar10_sequence 32 0 False (Finite 0.2),
      Set_random_seed 0, Sequence_getitem, Create_model ''M'' 10]
     @ config_events sample_env (flags absolute_invocation) ''M''
     @ [Create_optimizer ''SGD'' (Finite 0.1) (Finite 0.0001) (Finite 0.9)]"
proof -
  have f: "arg_dataset (flags absolute_invocation) = ''/tmp/x''"
    "attention_model_name (flags absolute_invocation) = ''M''"
    "select_lr_schedule_fn (arg_lr_schedule (flags absolute_invocation)) = None"
    by (simp_all add: absolute_invocation_def default_flags_def attention_model_name_def
        select_lr_schedule_fn_def)
  show ?thesis
    by (simp add: main_returns[OF sample_env_returns absolute_invocation_parsed]
          setup_model_returns[OF sample_env_returns] train_returns[OF sample_env_returns] f)
       (simp add: absolute_invocation_def default_flags_def)
qed

lemma absolute_ckpt_dir:
  "ckpt_dir sample_env (flags absolute_invocation) ''M''
   = ''/tmp/x/M/b32-e100-lr0.1/SGD/20201104-205700/ckpts''"
  by (simp add: path_defs sample_env_def absolute_invocation_def default_flags_def)

section \<open>The claims\<close>

subsection \<open>C1: the ResNet depth\<close>

text \<open>
  Claim C1: the depth computation returns \<open>n * 6 + 2\<close> when the version is 1 and
  \<open>n * 9 + 2\<close> when it is 2, so 20 for \<open>n = 3\<close>, version 1, and 29 for \<open>n = 3\<close>,
  version 2. The conditional of lines 167 to 170 has both branches, but it reads the local
  \<open>version\<close>, which line 164 sets to the constant 1; the flag \<open>--version\<close> only reaches
  \<open>create_model_cifar10\<close>. The run \<open>--dataset cifar10 --n 3 --version 2\<close> therefore
  computes depth 20, names the model \<open>ResNet20v1_CIFAR10\<close> and builds it with depth 20 and
  version 2; no model of depth 29 is built. (For every \<open>n\<close> and every \<open>--version\<close> the
  depth is \<open>n * 6 + 2\<close>: lemma \<open>cifar10_depth\<close>.)
\<close>

theorem depth_ignores_version_flag:
  "cmd_parser version2_invocation = Inr (flags version2_invocation)
   \<and> arg_n (flags version2_invocation) = 3 \<and> arg_version (flags version2_invocation) = 2
   \<and> setup_model sample_env (flags version2_invocation) ''NoModel'' []
       = (Inr (Some (Created_cifar10 20 2), ''ResNet20v1_CIFAR10'',
               (flags version2_invocation)\<lparr>arg_depth := Some 20\<rparr>),
          [Create_model_cifar10 20 2])
   \<and> Create_model_cifar10 20 2 \<in> set (snd (main sample_env version2_invocation []))
   \<and> Create_model_cifar10 29 2 \<notin> set (snd (main sample_env version2_invocation []))"
proof -
  have c: "cmd_parser version2_invocation = Inr (flags version2_invocation)"
    by (simp add: version2_invocation_def cmd_parser_def parse_args_def default_flags_def)
  have f: "arg_dataset (flags version2_invocation) = ''cifar10''"
    "arg_n (flags version2_invocation) = 3" "arg_version (flags version2_invocation) = 2"
    "select_lr_schedule_fn (arg_lr_schedule (flags version2_invocation)) = None"
    by (simp_all add: version2_invocation_def default_flags_def select_lr_schedule_fn_def)
  have s: "setup_model sample_env (flags version2_invocation) mn tr
       = (Inr (Some (Created_cifar10 20 2), ''ResNet20v1_CIFAR10'',
               (flags version2_invocation)\<lparr>arg_depth := Some 20\<rparr>),
          tr @ [Create_model_cifar10 20 2])" for mn tr
    by (simp add: setup_model_returns[OF sample_env_returns] f str_int_def digit_char_def)
  have m: "snd (main sample_env version2_invocation []) =
      [Print_args (flags version2_invocation), Load_cifar10_sequence 32 0 False (Finite 0.2),
       Set_random_seed 0, Sequence_getitem, Create_model_cifar10 20 2]
      @ config_events sample_env ((flags version2_invocation)\<lparr>arg_depth := Some 20\<rparr>)
          ''ResNet20v1_CIFAR10''
      @ [Create_optimizer ''SGD'' (Finite 0.1) (Finite 0.0001) (Finite 0.9)]"
    by (simp add: main_returns[OF sample_env_returns c] s train_returns[OF sample_env_returns] f)
       (simp add: version2_invocation_def default_flags_def)
  from c f s[of "''NoModel''" "[]"] show ?thesis
    by (simp add: m config_events_def)
qed

subsection \<open>C2: \<open>string2bool\<close>\<close>

text \<open>
  Claim C2: \<open>string2bool\<close> returns \<open>True\<close> for the text \<open>True\<close>, \<open>False\<close> for the text
  \<open>False\<close>, and raises (\<open>ArgumentTypeError\<close>) for every other text; the fall-through
  that would return \<open>None\<close> is never reached.
\<close>

theorem string2bool_accepts_exactly:
  "string2bool s =
     (if s = ''True'' then Inr (Some True)
      else if s = ''False'' then Inr (Some False)
      else Inl (ArgumentTypeError s))"
  by (simp add: string2bool_def)

text \<open>
  The two accepted texts, a text that differs in case only, and the empty text.
\<close>

theorem string2bool_accepts_exactly_witness:
  "string2bool ''True'' = Inr (Some True) \<and> string2bool ''False'' = Inr (Some False)
   \<and> string2bool ''true'' = Inl (ArgumentTypeError ''true'')
   \<and> string2bool '''' = Inl (ArgumentTypeError '''')"
  using string2bool_accepts_exactly[of "''True''"] string2bool_accepts_exactly[of "''False''"]
    string2bool_accepts_exactly[of "''true''"] string2bool_accepts_exactly[of "''''"]
  by simp

subsection \<open>C3: an unknown \<open>attention_type\<close>\<close>




subsection \<open>C4: an unknown \<open>model_name\<close> on MNIST\<close>

text \<open>
  Claim C4: an invocation whose namespace has dataset \<open>mnist\<close> and a \<open>model_name\<close>
  outside the list of available models (the eight names of lemma
  \<open>available_models_list\<close>) makes \<open>main\<close> raise a \<open>ValueError\<close>. In every
  such run \<open>main\<close> ends in an error and builds no model. When the collaborators called
  before the check (print, the data loader, the seed, the first batch) return, the error
  is a \<open>ValueError\<close>: the one of line 148 for the model name, or already the one of
  \<open>cmd_parser\<close> when the \<open>attention_type\<close> is unknown as well.
\<close>

theorem unknown_mnist_model_raises:
  assumes "parse_args argv = Inr a"
    and "arg_dataset a = ''mnist''"
    and "arg_model_name a \<notin> set available_models"
  shows "\<exists>e tr. main E argv [] = (Inl e, tr) \<and> \<not> list_ex builds_model tr
           \<and> ((\<forall>tr ev. \<not> fails E tr ev) \<longrightarrow>
                e = ValueError (if arg_attention_type a \<in> set [''official'', ''senet'']
                                then arg_model_name a else arg_attention_type a))"
proof -
  obtain r tr where m: "main E argv [] = (r, tr)"
    by (cases "main E argv []")
  from m show ?thesis
  proof (cases rule: main_cases)
    case (at_parser e)
    with assms(1) have "e = ValueError (arg_attention_type a)"
      "arg_attention_type a \<notin> set [''official'', ''senet'']"
      by (auto simp add: cmd_parser_def split: if_splits)
    with at_parser m show ?thesis by auto
  next
    case (at_prepare a' pre ev tr'')
    with m show ?thesis by (auto simp add: prepare_not_builds)
  next
    case (at_setup a' pre e)
    with assms cmd_parser_flags(3)[OF at_setup(1)] have "a' = a" by simp
    with at_setup assms m cmd_parser_flags(2)[OF at_setup(1)] show ?thesis
      by (auto simp add: setup_model_unknown raise_def prepare_not_builds)
  next
    case (at_train a' pre model mn a'' tr1)
    with assms cmd_parser_flags(3)[OF at_train(1)] have "a' = a" by simp
    with at_train assms show ?thesis
      by (simp add: setup_model_unknown raise_def)
  qed
qed

text \<open>
  The run without any flag: the default \<open>model_name\<close> is \<open>NoModel\<close>.
\<close>

theorem unknown_mnist_model_raises_witness:
  "parse_args default_invocation = Inr (default_flags 0)
   \<and> arg_dataset (default_flags 0) = ''mnist''
   \<and> arg_model_name (default_flags 0) = ''NoModel''
   \<and> ''NoModel'' \<notin> set available_models
   \<and> (\<forall>tr ev. \<not> fails sample_env tr ev)
   \<and> fst (main sample_env default_invocation []) = Inl (ValueError ''NoModel'')"
proof -
  have p: "parse_args default_invocation = Inr (default_flags 0)"
    by (simp add: parse_args_def default_invocation_def default_flags_def)
  have d: "arg_dataset (default_flags 0) = ''mnist''"
    and n: "arg_model_name (default_flags 0) \<notin> set available_models"
    and t: "arg_attention_type (default_flags 0) \<in> set [''official'', ''senet'']"
    and k: "arg_model_name (default_flags 0) = ''NoModel''"
    by (simp_all add: default_flags_def available_models_def resnet_family_def)
  from unknown_mnist_model_raises[OF p d n, of sample_env] sample_env_returns t
  have "fst (main sample_env default_invocation []) = Inl (ValueError ''NoModel'')"
    by (auto simp add: k)
  with p d n k sample_env_returns show ?thesis by simp
qed

subsection \<open>C5: the directories of a run\<close>

text \<open>
  Claim C5, as amended: the checkpoint and log directories of every run are derived from
  exactly the dataset name, the model name, the batch size, the epoch count, the learning
  rate, the optimizer name and a timestamp, joined by \<open>os.path.join\<close> under the prefix:
  every directory that any run creates is \<open>joined_dir\<close> of the run's identifier, with leaf
  \<open>ckpts\<close> or \<open>logs\<close>. The model name is the local \<open>model_name\<close> of line 184, after the
  attention rewrite or the CIFAR-10 renaming. When the dataset name, the model name, the
  text of the learning rate, the optimizer name and the timestamp are \<open>plain\<close> (not empty,
  no separator at either end), the directory is \<open>run_dir\<close>:
  \<open>dataset/model_name/b{batch_size}-e{epochs}-lr{learning_rate}/optimizer_name/timestamp\<close>
  and the leaf under the prefix.
\<close>

theorem run_directories:
  assumes "Makedirs p \<in> set (snd (main E argv []))"
  shows "\<exists>a. cmd_parser argv = Inr a
     \<and> (p = joined_dir E (run_id_of E a) ''ckpts'' \<or> p = joined_dir E (run_id_of E a) ''logs'')
     \<and> (plain (arg_dataset a) \<and> plain (run_model_name a)
          \<and> plain (float_repr E (arg_learning_rate a)) \<and> plain (arg_optimizer_name a)
          \<and> plain (now E)
        \<longrightarrow> p = run_dir E (run_id_of E a) ''ckpts'' \<or> p = run_dir E (run_id_of E a) ''logs'')"
proof -
  obtain r tr where m: "main E argv [] = (r, tr)"
    by (cases "main E argv []")
  with assms have p: "Makedirs p \<in> set tr" by simp
  with main_trace[OF m] obtain a pre evs where a: "cmd_parser argv = Inr a"
    and tr: "tr = pre @ evs" and pre: "list_all setup_event pre"
    and evs: "list_all (train_event E (run_args a) (run_model_name a)) evs"
    by auto
  from p tr setup_not_makedirs[OF pre] have "Makedirs p \<in> set evs" by simp
  from list_allD[OF evs this] have "train_event E (run_args a) (run_model_name a) (Makedirs p)" .
  then have "p = ckpt_dir E a (run_model_name a) \<or> p = log_dir E a (run_model_name a)"
    by (simp add: run_args_dirs)
  then have j: "p = joined_dir E (run_id_of E a) ''ckpts'' \<or> p = joined_dir E (run_id_of E a) ''logs''"
    by (simp add: dirs_joined_dir)
  have "joined_dir E (run_id_of E a) leaf = run_dir E (run_id_of E a) leaf"
    if "plain (arg_dataset a)" "plain (run_model_name a)"
      "plain (float_repr E (arg_learning_rate a))" "plain (arg_optimizer_name a)"
      "plain (now E)" "plain leaf" for leaf
    using that by (intro joined_dir_plain) (simp_all add: run_id_of_def)
  with j plain_leaves have "plain (arg_dataset a) \<and> plain (run_model_name a)
          \<and> plain (float_repr E (arg_learning_rate a)) \<and> plain (arg_optimizer_name a)
          \<and> plain (now E)
        \<longrightarrow> p = run_dir E (run_id_of E a) ''ckpts'' \<or> p = run_dir E (run_id_of E a) ''logs''"
    by auto
  with a j show ?thesis by blast
qed

text \<open>
  The checkpoint directory of the run \<open>--dataset cifar10 --lr_schedule cifar10_scheduler\<close>.
\<close>

theorem run_directories_witness:
  "Makedirs ''/home/user/Documents/DeepLearningData/cifar10/ResNet20v1_CIFAR10/b32-e100-lr0.1/SGD/20201104-205700/ckpts''
     \<in> set (snd (main sample_env cifar10_invocation []))
   \<and> cmd_parser cifar10_invocation = Inr (flags cifar10_invocation)
   \<and> run_id_of sample_env (flags cifar10_invocation) =
       \<lparr>id_dataset = ''cifar10'', id_model_name = ''ResNet20v1_CIFAR10'', id_batch_size = 32,
        id_epochs = 100, id_learning_rate = Finite 0.1, id_optimizer_name = ''SGD'',
        id_timestamp = ''20201104-205700''\<rparr>
   \<and> plain (arg_dataset (flags cifar10_invocation))
   \<and> plain (run_model_name (flags cifar10_invocation))
   \<and> plain (float_repr sample_env (arg_learning_rate (flags cifar10_invocation)))
   \<and> plain (arg_optimizer_name (flags cifar10_invocation))
   \<and> plain (now sample_env)
   \<and> run_dir sample_env (run_id_of sample_env (flags cifar10_invocation)) ''ckpts''
       = ''/home/user/Documents/DeepLearningData/cifar10/ResNet20v1_CIFAR10/b32-e100-lr0.1/SGD/20201104-205700/ckpts''
   \<and> run_dir sample_env (run_id_of sample_env (flags cifar10_invocation)) ''logs''
       \<noteq> ''/home/user/Documents/DeepLearningData/cifar10/ResNet20v1_CIFAR10/b32-e100-lr0.1/SGD/20201104-205700/ckpts''"
proof -
  let ?p = "''/home/user/Documents/DeepLearningData/cifar10/ResNet20v1_CIFAR10/b32-e100-lr0.1/SGD/20201104-205700/ckpts''"
  have h: "Makedirs ?p \<in> set (snd (main sample_env cifar10_invocation []))"
    by (simp add: cifar10_invocation_run Let_def config_events_def sample_ckpt_dir)
  have k: "run_id_of sample_env (flags cifar10_invocation) =
       \<lparr>id_dataset = ''cifar10'', id_model_name = ''ResNet20v1_CIFAR10'', id_batch_size = 32,
        id_epochs = 100, id_learning_rate = Finite 0.1, id_optimizer_name = ''SGD'',
        id_timestamp = ''20201104-205700''\<rparr>"
    by (simp add: run_id_of_def run_model_name_def cifar10_invocation_def default_flags_def
        sample_env_def str_int_def digit_char_def)
  have n: "run_model_name (flags cifar10_invocation) = ''ResNet20v1_CIFAR10''"
    using k by (simp add: run_id_of_def)
  have pl: "plain (arg_dataset (flags cifar10_invocation))"
    "plain (run_model_name (flags cifar10_invocation))"
    "plain (float_repr sample_env (arg_learning_rate (flags cifar10_invocation)))"
    "plain (arg_optimizer_name (flags cifar10_invocation))"
    "plain (now sample_env)"
    by (simp_all add: n) (simp_all add: plain_def cifar10_invocation_def default_flags_def
        sample_env_def)
  have l: "run_dir sample_env (run_id_of sample_env (flags cifar10_invocation)) ''logs'' \<noteq> ?p"
    unfolding k by (simp add: run_dir_def sample_env_def str_int_def digit_char_def)
  from run_directories[OF h] cifar10_invocation_parsed l pl
  have "run_dir sample_env (run_id_of sample_env (flags cifar10_invocation)) ''ckpts'' = ?p"
    by auto
  with h k l pl cifar10_invocation_parsed show ?thesis by simp
qed

text \<open>
  Claim C5 as stated fails on the run \<open>--dataset /tmp/x --model_name M\<close>: the dataset
  name starts with the separator, \<open>os.path.join\<close> restarts the path there, and the
  directory the run creates lies outside the prefix; it is not the directory
  \<open>dataset/model_name/...\<close> under the prefix.
\<close>

theorem absolute_dataset_leaves_prefix:
  "cmd_parser absolute_invocation = Inr (flags absolute_invocation)
   \<and> Makedirs ''/tmp/x/M/b32-e100-lr0.1/SGD/20201104-205700/ckpts''
       \<in> set (snd (main sample_env absolute_invocation []))
   \<and> run_dir sample_env (run_id_of sample_env (flags absolute_invocation)) ''ckpts''
       = ''/home/user/Documents/DeepLearningData//tmp/x/M/b32-e100-lr0.1/SGD/20201104-205700/ckpts''
   \<and> run_dir sample_env (run_id_of sample_env (flags absolute_invocation)) ''logs''
       = ''/home/user/Documents/DeepLearningData//tmp/x/M/b32-e100-lr0.1/SGD/20201104-205700/logs''
   \<and> ''/tmp/x/M/b32-e100-lr0.1/SGD/20201104-205700/ckpts''
       \<noteq> run_dir sample_env (run_id_of sample_env (flags absolute_invocation)) ''ckpts''
   \<and> ''/tmp/x/M/b32-e100-lr0.1/SGD/20201104-205700/ckpts''
       \<noteq> run_dir sample_env (run_id_of sample_env (flags absolute_invocation)) ''logs''"
proof -
  have h: "Makedirs ''/tmp/x/M/b32-e100-lr0.1/SGD/20201104-205700/ckpts''
       \<in> set (snd (main sample_env absolute_invocation []))"
    by (simp add: absolute_invocation_trace config_events_def absolute_ckpt_dir)
  have k: "run_id_of sample_env (flags absolute_invocation) =
       \<lparr>id_dataset = ''/tmp/x'', id_model_name = ''M'', id_batch_size = 32,
        id_epochs = 100, id_learning_rate = Finite 0.1, id_optimizer_name = ''SGD'',
        id_timestamp = ''20201104-205700''\<rparr>"
    by (simp add: run_id_of_def run_model_name_def attention_model_name_def
        absolute_invocation_def default_flags_def sample_env_def)
  have c: "run_dir sample_env (run_id_of sample_env (flags absolute_invocation)) ''ckpts''
       = ''/home/user/Documents/DeepLearningData//tmp/x/M/b32-e100-lr0.1/SGD/20201104-205700/ckpts''"
    and l: "run_dir sample_env (run_id_of sample_env (flags absolute_invocation)) ''logs''
       = ''/home/user/Documents/DeepLearningData//tmp/x/M/b32-e100-lr0.1/SGD/20201104-205700/logs''"
    unfolding k by (simp_all add: run_dir_def sample_env_def str_int_def digit_char_def)
  from h absolute_invocation_parsed show ?thesis
    unfolding c l by simp
qed

subsection \<open>C6: the configuration is dumped once\<close>

text \<open>
  Claim C6: a run that reaches the artifact-writing stage serializes the configuration to
  JSON exactly once, to \<open>config.json\<close> in its log directory. In every run there is at
  most one \<open>json.dump\<close>, and what it dumps is the run's namespace into \<open>config.json\<close> of
  the run's log directory. A run that has created a directory, and in which
  \<open>os.makedirs\<close>, \<open>open\<close> and \<open>json.dump\<close> return, dumps exactly once.
\<close>

theorem config_dumped_once:
  "length (filter is_json_dump (snd (main E argv []))) \<le> 1
   \<and> (\<forall>a' p. Json_dump a' p \<in> set (snd (main E argv [])) \<longrightarrow>
        (\<exists>a. cmd_parser argv = Inr a \<and> a' = run_args a
           \<and> p = path_join (log_dir E a (run_model_name a)) [''config.json'']))
   \<and> ((\<exists>p. Makedirs p \<in> set (snd (main E argv [])))
        \<and> (\<forall>tr p. \<not> fails E tr (Makedirs p)) \<and> (\<forall>tr p. \<not> fails E tr (Open_write p))
        \<and> (\<forall>tr a p. \<not> fails E tr (Json_dump a p))
      \<longrightarrow> length (filter is_json_dump (snd (main E argv []))) = 1)"
proof -
  obtain r tr where m: "main E argv [] = (r, tr)"
    by (cases "main E argv []")
  have paths: "\<exists>a. cmd_parser argv = Inr a \<and> a' = run_args a
           \<and> p = path_join (log_dir E a (run_model_name a)) [''config.json'']"
    if "Json_dump a' p \<in> set tr" for a' p
  proof -
    from that main_trace[OF m] obtain a pre evs where a: "cmd_parser argv = Inr a"
      and tr: "tr = pre @ evs" and pre: "list_all setup_event pre"
      and evs: "list_all (train_event E (run_args a) (run_model_name a)) evs"
      by auto
    from pre have "Json_dump a' p \<notin> set pre" by (auto simp add: list_all_iff)
    with that tr have "Json_dump a' p \<in> set evs" by simp
    from list_allD[OF evs this] a show ?thesis by (simp add: run_args_dirs)
  qed
  have count: "length (filter is_json_dump tr) \<le> 1
     \<and> ((\<exists>p. Makedirs p \<in> set tr) \<and> (\<forall>tr p. \<not> fails E tr (Makedirs p))
          \<and> (\<forall>tr p. \<not> fails E tr (Open_write p)) \<and> (\<forall>tr a p. \<not> fails E tr (Json_dump a p))
        \<longrightarrow> length (filter is_json_dump tr) = 1)"
    using m
  proof (cases rule: main_cases)
    case (at_parser e)
    then show ?thesis by simp
  next
    case (at_prepare a pre ev tr'')
    then have "list_all setup_event tr"
      by (auto simp add: list_all_iff prepare_setup_event)
    from setup_no_dump[OF this] setup_not_makedirs[OF this] show ?thesis by simp
  next
    case (at_setup a pre e)
    from setup_model_trace[OF at_setup(3)] at_setup(2) have "list_all setup_event tr"
      by (auto simp add: list_all_iff prepare_setup_event)
    from setup_no_dump[OF this] setup_not_makedirs[OF this] show ?thesis by simp
  next
    case (at_train a pre model mn a' tr1)
    from setup_model_trace[OF at_train(3)] at_train(2) have "list_all setup_event tr1"
      by (auto simp add: list_all_iff prepare_setup_event)
    from setup_no_dump[OF this] setup_not_makedirs[OF this] train_dumps[OF at_train(4)]
    show ?thesis by auto
  qed
  from paths count m show ?thesis by simp
qed

text \<open>
  The run \<open>--dataset cifar10 --lr_schedule cifar10_scheduler\<close>; the dump has \<open>depth = 20\<close>.
\<close>

theorem config_dumped_once_witness:
  "(\<exists>p. Makedirs p \<in> set (snd (main sample_env cifar10_invocation [])))
   \<and> (\<forall>tr p. \<not> fails sample_env tr (Makedirs p)) \<and> (\<forall>tr p. \<not> fails sample_env tr (Open_write p))
   \<and> (\<forall>tr a p. \<not> fails sample_env tr (Json_dump a p))
   \<and> Json_dump ((flags cifar10_invocation)\<lparr>arg_depth := Some 20\<rparr>)
        (path_join (log_dir sample_env (flags cifar10_invocation) ''ResNet20v1_CIFAR10'') [''config.json''])
       \<in> set (snd (main sample_env cifar10_invocation []))
   \<and> length (filter is_json_dump (snd (main sample_env cifar10_invocation []))) = 1"
proof -
  have h: "\<exists>p. Makedirs p \<in> set (snd (main sample_env cifar10_invocation []))"
    by (auto simp add: cifar10_invocation_run Let_def config_events_def)
  have d: "Json_dump ((flags cifar10_invocation)\<lparr>arg_depth := Some 20\<rparr>)
        (path_join (log_dir sample_env (flags cifar10_invocation) ''ResNet20v1_CIFAR10'') [''config.json''])
       \<in> set (snd (main sample_env cifar10_invocation []))"
    by (simp add: cifar10_invocation_run Let_def config_events_def log_dir_def subfix_def)
  from config_dumped_once[of sample_env cifar10_invocation] h d sample_env_returns
  show ?thesis by simp
qed

subsection \<open>C7: directories are created before they are used\<close>

text \<open>
  Claim C7: in every run the log directory is created before \<open>config.json\<close> is opened in
  it, and the checkpoint directory before the checkpoint callback is built with a path
  under it. Wherever the trace of a run is cut at an event \<open>ev\<close>: if \<open>ev\<close> opens a file,
  builds the CSV logger or the TensorBoard callback, its path lies in the run's log
  directory and the \<open>makedirs\<close> of that directory is among the events before \<open>ev\<close>; if
  \<open>ev\<close> builds the checkpoint callback, the same holds with the checkpoint directory.
  This holds whatever the collaborators do.
\<close>

theorem directories_created_before_use:
  assumes "snd (main E argv []) = tr1 @ ev # tr2"
  shows "\<exists>a. cmd_parser argv = Inr a \<and>
     (\<forall>p. ev = Open_write p \<longrightarrow>
        p = path_join (log_dir E a (run_model_name a)) [''config.json'']
        \<and> Makedirs (log_dir E a (run_model_name a)) \<in> set tr1) \<and>
     (\<forall>p. ev = CSVLogger p \<longrightarrow>
        p = path_join (log_dir E a (run_model_name a)) [''training.log.csv'']
        \<and> Makedirs (log_dir E a (run_model_name a)) \<in> set tr1) \<and>
     (\<forall>p. ev = TensorBoard p \<longrightarrow>
        p = log_dir E a (run_model_name a)
        \<and> Makedirs (log_dir E a (run_model_name a)) \<in> set tr1) \<and>
     (\<forall>p. ev = ModelCheckpoint p \<longrightarrow>
        p = path_join (ckpt_dir E a (run_model_name a)) [ckpt_filename (run_model_name a)]
        \<and> Makedirs (ckpt_dir E a (run_model_name a)) \<in> set tr1)"
proof -
  obtain r tr where m: "main E argv [] = (r, tr)"
    by (cases "main E argv []")
  with assms have tr: "tr = tr1 @ ev # tr2" by simp
  then have "tr \<noteq> []" by simp
  with main_trace[OF m] obtain a pre evs where a: "cmd_parser argv = Inr a"
    and tr': "tr = pre @ evs" and pre: "list_all setup_event pre"
    and evs: "list_all (train_event E (run_args a) (run_model_name a)) evs"
    by auto
  let ?ld = "log_dir E a (run_model_name a)" and ?cd = "ckpt_dir E a (run_model_name a)"
  have path: "train_event E (run_args a) (run_model_name a) ev" if "uses_dir ev"
  proof -
    from tr have "ev \<in> set tr" by simp
    with tr' setup_not_uses[OF pre that] have "ev \<in> set evs" by simp
    from list_allD[OF evs this] show ?thesis .
  qed
  have made: "Makedirs ?cd \<in> set tr1 \<and> Makedirs ?ld \<in> set tr1" if u: "uses_dir ev"
    using m
  proof (cases rule: main_cases)
    case (at_parser e)
    with \<open>tr \<noteq> []\<close> show ?thesis by simp
  next
    case (at_prepare a0 pre0 ev0 tr'')
    then have "list_all setup_event tr"
      by (auto simp add: list_all_iff prepare_setup_event)
    from setup_not_uses[OF this u] tr show ?thesis by simp
  next
    case (at_setup a0 pre0 e)
    from setup_model_trace[OF at_setup(3)] at_setup(2) have "list_all setup_event tr"
      by (auto simp add: list_all_iff prepare_setup_event)
    from setup_not_uses[OF this u] tr show ?thesis by simp
  next
    case (at_train a0 pre0 model mn a' trs)
    from at_train(1) a have a0: "a0 = a" by simp
    from setup_model_trace[OF at_train(3)] at_train(2) have s: "list_all setup_event trs"
      by (auto simp add: list_all_iff prepare_setup_event)
    from setup_model_Inr(1,2)[OF at_train(3)] a0
    have mn: "mn = run_model_name a" "a' = run_args a"
      by (simp_all add: run_model_name_def)
    from train_starts[OF at_train(4)] show ?thesis
    proof (elim disjE exE conjE)
      fix evs' assume "tr = trs @ evs'" "list_all (\<lambda>ev. \<not> uses_dir ev) evs'"
      with setup_not_uses[OF s u] u have "ev \<notin> set tr"
        by (auto simp add: list_all_iff)
      with tr show ?thesis by simp
    next
      fix rest assume "tr = trs @ Makedirs (ckpt_dir E a' mn) # Makedirs (log_dir E a' mn) # rest"
      with tr mn have "tr1 @ ev # tr2 = trs @ Makedirs ?cd # Makedirs ?ld # rest"
        by (simp add: run_args_dirs)
      from split_after_two[OF this setup_not_uses[OF s u]] u show ?thesis
        by (cases ev) simp_all
    qed
  qed
  from a path made show ?thesis
    by (intro exI[of _ a]) (auto simp add: run_args_dirs)
qed

text \<open>
  The run \<open>--dataset cifar10 --lr_schedule cifar10_scheduler\<close>, cut where
  \<open>config.json\<close> is opened.
\<close>

theorem directories_created_before_use_witness:
  "snd (main sample_env cifar10_invocation []) =
     [Print_args (flags cifar10_invocation), Load_cifar10_sequence 32 0 False (Finite 0.2),
      Set_random_seed 0, Sequence_getitem, Create_model_cifar10 20 1,
      Makedirs (ckpt_dir sample_env (flags cifar10_invocation) ''ResNet20v1_CIFAR10''),
      Makedirs (log_dir sample_env (flags cifar10_invocation) ''ResNet20v1_CIFAR10'')]
     @ Open_write (path_join (log_dir sample_env (flags cifar10_invocation) ''ResNet20v1_CIFAR10'')
                     [''config.json''])
     # drop 8 (snd (main sample_env cifar10_invocation []))
   \<and> run_model_name (flags cifar10_invocation) = ''ResNet20v1_CIFAR10''
   \<and> Makedirs (log_dir sample_env (flags cifar10_invocation) ''ResNet20v1_CIFAR10'')
       \<in> set [Print_args (flags cifar10_invocation), Load_cifar10_sequence 32 0 False (Finite 0.2),
         Set_random_seed 0, Sequence_getitem, Create_model_cifar10 20 1,
         Makedirs (ckpt_dir sample_env (flags cifar10_invocation) ''ResNet20v1_CIFAR10''),
         Makedirs (log_dir sample_env (flags cifar10_invocation) ''ResNet20v1_CIFAR10'')]"
proof -
  let ?a = "flags cifar10_invocation"
  let ?ld = "log_dir sample_env ?a ''ResNet20v1_CIFAR10''"
  let ?tr1 = "[Print_args ?a, Load_cifar10_sequence 32 0 False (Finite 0.2),
      Set_random_seed 0, Sequence_getitem, Create_model_cifar10 20 1,
      Makedirs (ckpt_dir sample_env ?a ''ResNet20v1_CIFAR10''), Makedirs ?ld]"
  have d: "ckpt_dir sample_env (?a\<lparr>arg_depth := Some 20\<rparr>) mn = ckpt_dir sample_env ?a mn"
    "log_dir sample_env (?a\<lparr>arg_depth := Some 20\<rparr>) mn = log_dir sample_env ?a mn" for mn
    by (simp_all add: ckpt_dir_def log_dir_def subfix_def)
  have h: "snd (main sample_env cifar10_invocation []) =
     ?tr1 @ Open_write (path_join ?ld [''config.json''])
          # drop 8 (snd (main sample_env cifar10_invocation []))"
    by (simp add: cifar10_invocation_run Let_def config_events_def d)
  have n: "run_model_name ?a = ''ResNet20v1_CIFAR10''"
    by (simp add: run_model_name_def cifar10_invocation_def default_flags_def str_int_def
        digit_char_def)
  from directories_created_before_use[OF h] cifar10_invocation_parsed n
  have "Makedirs ?ld \<in> set ?tr1" by auto
  with h n show ?thesis by simp
qed

subsection \<open>C8: \<open>lr_schedule_fn\<close> without a known schedule\<close>

text \<open>
  Claim C8, as amended: when \<open>lr_schedule\<close> is neither \<open>cifar10_scheduler\<close> nor
  \<open>keras_lr_scheduler\<close> (the default \<open>no_schedule\<close> included), \<open>lr_schedule_fn\<close> is
  never assigned and the run never trains: it always ends in an error, and neither the
  scheduler callback nor \<open>compile\<close> nor \<open>fit\<close> is ever called. When the arguments pass
  \<open>cmd_parser\<close> and the MNIST model-name check and the collaborators return, the error is
  the \<open>UnboundLocalError\<close> for \<open>lr_schedule_fn\<close>, raised right after the optimizer is
  created, where the \<open>LearningRateScheduler\<close> callback would be built. Otherwise the run
  has ended earlier with another error.
\<close>

theorem unbound_lr_schedule_fn:
  assumes "arg_lr_schedule (flags argv) \<notin> set [''cifar10_scheduler'', ''keras_lr_scheduler'']"
  shows "select_lr_schedule_fn (arg_lr_schedule (flags argv)) = None
     \<and> (\<exists>e. fst (main E argv []) = Inl e)
     \<and> \<not> list_ex trains (snd (main E argv []))
     \<and> ((\<forall>tr ev. \<not> fails E tr ev) \<and> cmd_parser argv = Inr a
          \<and> (arg_dataset a = ''mnist'' \<longrightarrow> arg_model_name a \<in> set available_models)
        \<longrightarrow> fst (main E argv []) = Inl (UnboundLocalError ''lr_schedule_fn'')
            \<and> last (snd (main E argv [])) =
                Create_optimizer (arg_optimizer_name a) (arg_learning_rate a)
                  (arg_weight_decay a) (arg_momentum a))"
proof -
  from assms have none: "select_lr_schedule_fn (arg_lr_schedule (flags argv)) = None"
    by (simp add: select_lr_schedule_fn_def)
  obtain r tr where m: "main E argv [] = (r, tr)"
    by (cases "main E argv []")
  have stops: "(\<exists>e. r = Inl e) \<and> \<not> list_ex trains tr"
    using m
  proof (cases rule: main_cases)
    case (at_parser e)
    then show ?thesis by simp
  next
    case (at_prepare a0 pre ev tr'')
    then have "list_all setup_event tr"
      by (auto simp add: list_all_iff prepare_setup_event)
    from setup_not_trains[OF this] at_prepare show ?thesis by simp
  next
    case (at_setup a0 pre e)
    from setup_model_trace[OF at_setup(3)] at_setup(2) have "list_all setup_event tr"
      by (auto simp add: list_all_iff prepare_setup_event)
    from setup_not_trains[OF this] at_setup show ?thesis by simp
  next
    case (at_train a0 pre model mn a' tr1)
    from setup_model_trace[OF at_train(3)] at_train(2) have "list_all setup_event tr1"
      by (auto simp add: list_all_iff prepare_setup_event)
    moreover from none cmd_parser_lr_schedule[OF at_train(1)]
    have "select_lr_schedule_fn (arg_lr_schedule a0) = None" by simp
    from train_stops[OF at_train(4)] this
    obtain e evs where "r = Inl e" "tr = tr1 @ evs" "list_all (\<lambda>ev. \<not> trains ev) evs"
      by auto
    ultimately show ?thesis
      using setup_not_trains[of tr1] by (auto simp add: list_ex_iff list_all_iff)
  qed
  have exact: "r = Inl (UnboundLocalError ''lr_schedule_fn'')
      \<and> last tr = Create_optimizer (arg_optimizer_name a) (arg_learning_rate a)
                  (arg_weight_decay a) (arg_momentum a)"
    if ret: "\<forall>tr ev. \<not> fails E tr ev" and a: "cmd_parser argv = Inr a"
      and ok: "arg_dataset a = ''mnist'' \<longrightarrow> arg_model_name a \<in> set available_models"
  proof -
    from none cmd_parser_lr_schedule[OF a]
    have n: "select_lr_schedule_fn (arg_lr_schedule a) = None" by simp
    from m ok show ?thesis
      by (auto simp add: main_returns[OF ret a] setup_model_returns[OF ret] train_returns[OF ret] n
          Let_def split: if_splits)
  qed
  from none stops exact m show ?thesis by simp
qed

text \<open>
  The run \<open>--dataset cifar10\<close>, with the default \<open>lr_schedule\<close>.
\<close>

theorem unbound_lr_schedule_fn_witness:
  "arg_lr_schedule (flags unscheduled_invocation) \<notin> set [''cifar10_scheduler'', ''keras_lr_scheduler'']
   \<and> (\<forall>tr ev. \<not> fails sample_env tr ev)
   \<and> cmd_parser unscheduled_invocation = Inr (flags unscheduled_invocation)
   \<and> arg_dataset (flags unscheduled_invocation) = ''cifar10''
   \<and> fst (main sample_env unscheduled_invocation []) = Inl (UnboundLocalError ''lr_schedule_fn'')
   \<and> last (snd (main sample_env unscheduled_invocation []))
       = Create_optimizer ''SGD'' (Finite 0.1) (Finite 0.0001) (Finite 0.9)"
proof -
  have h: "arg_lr_schedule (flags unscheduled_invocation)
      \<notin> set [''cifar10_scheduler'', ''keras_lr_scheduler'']"
    by (simp add: unscheduled_invocation_def default_flags_def)
  have c: "cmd_parser unscheduled_invocation = Inr (flags unscheduled_invocation)"
    by (simp add: unscheduled_invocation_def cmd_parser_def parse_args_def default_flags_def)
  have d: "arg_dataset (flags unscheduled_invocation) = ''cifar10''"
    by (simp add: unscheduled_invocation_def default_flags_def)
  from unbound_lr_schedule_fn[OF h, of sample_env "flags unscheduled_invocation"]
    sample_env_returns c d
  have "fst (main sample_env unscheduled_invocation []) = Inl (UnboundLocalError ''lr_schedule_fn'')
    \<and> last (snd (main sample_env unscheduled_invocation []))
       = Create_optimizer (arg_optimizer_name (flags unscheduled_invocation))
           (arg_learning_rate (flags unscheduled_invocation))
           (arg_weight_decay (flags unscheduled_invocation))
           (arg_momentum (flags unscheduled_invocation))"
    by simp
  with h c d sample_env_returns show ?thesis
    by (simp add: unscheduled_invocation_def default_flags_def)
qed

text \<open>
  Claim C8 as stated fails on the run without any flag: \<open>lr_schedule\<close> is the default
  \<open>no_schedule\<close>, and \<open>main\<close> raises the \<open>ValueError\<close> for the model name \<open>NoModel\<close>
  at line 148, long before line 196.
\<close>

theorem default_invocation_raises_value_error:
  "arg_lr_schedule (flags default_invocation) = ''no_schedule''
   \<and> arg_lr_schedule (flags default_invocation) \<notin> set [''cifar10_scheduler'', ''keras_lr_scheduler'']
   \<and> main sample_env default_invocation [] =
       (Inl (ValueError ''NoModel''),
        [Print_args (default_flags 0), Load_cifar10_sequence 32 0 False (Finite 0.2),
         Set_random_seed 0, Sequence_getitem])
   \<and> fst (main sample_env default_invocation []) \<noteq> Inl (UnboundLocalError ''lr_schedule_fn'')"
proof -
  have c: "cmd_parser default_invocation = Inr (default_flags 0)"
    by (simp add: default_invocation_def cmd_parser_def parse_args_def default_flags_def)
  have "main sample_env default_invocation [] =
       (Inl (ValueError ''NoModel''),
        [Print_args (default_flags 0), Load_cifar10_sequence 32 0 False (Finite 0.2),
         Set_random_seed 0, Sequence_getitem])"
    by (simp add: main_returns[OF sample_env_returns c] setup_model_returns[OF sample_env_returns])
       (simp add: default_flags_def available_models_def resnet_family_def)
  then show ?thesis
    by (simp add: default_invocation_def default_flags_def)
qed

subsection \<open>C9: no model outside the ResNet family on MNIST\<close>

text \<open>
  Claim C9, as amended: on MNIST with an accepted \<open>model_name\<close>, \<open>model\<close> is assigned
  exactly when the effective model name is in the ResNet family, and the attention
  rewrite always takes the name out of the family. When the effective name is outside
  it, no model is built, \<open>compile\<close> and \<open>fit\<close> are never called and the run ends in
  an error; when the collaborators return, that error is an \<open>UnboundLocalError\<close>: for
  \<open>model\<close> at \<open>model.compile\<close> if \<open>lr_schedule\<close> names one of the two schedulers, and
  otherwise for \<open>lr_schedule_fn\<close>, raised earlier, where the scheduler callback is built.
\<close>

theorem model_unassigned_outside_resnet_family:
  assumes "cmd_parser argv = Inr a"
    and "arg_dataset a = ''mnist''"
    and "arg_model_name a \<in> set available_models"
  shows "(\<forall>tr model mn a' tr'.
            setup_model E a (attention_model_name a) tr = (Inr (model, mn, a'), tr') \<longrightarrow>
            (model = None) = (attention_model_name a \<notin> set resnet_family))
     \<and> (truthy (arg_attention a) \<longrightarrow> attention_model_name a \<notin> set resnet_family)
     \<and> (attention_model_name a \<notin> set resnet_family \<longrightarrow>
          (\<exists>e. fst (main E argv []) = Inl e)
          \<and> \<not> list_ex builds_model (snd (main E argv []))
          \<and> \<not> list_ex runs_model (snd (main E argv []))
          \<and> ((\<forall>tr ev. \<not> fails E tr ev) \<longrightarrow>
               fst (main E argv []) =
                 Inl (UnboundLocalError
                        (if select_lr_schedule_fn (arg_lr_schedule a) = None
                         then ''lr_schedule_fn'' else ''model''))))"
proof -
  have assigned: "(model = None) = (attention_model_name a \<notin> set resnet_family)"
    if "setup_model E a (attention_model_name a) tr = (Inr (model, mn, a'), tr')"
    for tr model mn a' tr'
    using setup_model_Inr(4)[OF that assms(2)] .
  note rewrite = attention_rewrite(2)[OF assms(1)]
  obtain r tr where m: "main E argv [] = (r, tr)"
    by (cases "main E argv []")
  have stops: "(\<exists>e. r = Inl e) \<and> \<not> list_ex builds_model tr \<and> \<not> list_ex runs_model tr"
    if out: "attention_model_name a \<notin> set resnet_family"
    using m
  proof (cases rule: main_cases)
    case (at_parser e)
    with assms(1) show ?thesis by simp
  next
    case (at_prepare a0 pre ev tr'')
    then have "list_all setup_event tr"
      by (auto simp add: list_all_iff prepare_setup_event)
    from setup_not_trains[OF this] at_prepare show ?thesis
      by (simp add: prepare_not_builds)
  next
    case (at_setup a0 pre e)
    with assms out show ?thesis
      by (simp add: setup_model_unassigned ret_def)
  next
    case (at_train a0 pre model mn a' tr1)
    with assms out have "model = None" "tr1 = pre"
      by (simp_all add: setup_model_unassigned ret_def)
    with train_stops[OF at_train(4)]
    obtain e evs where "r = Inl e" "tr = pre @ evs" "list_all (\<lambda>ev. \<not> runs_model ev) evs"
      "list_all (\<lambda>ev. \<not> setup_event ev) evs"
      by auto
    moreover from at_train(2) have "list_all setup_event pre"
      by (auto simp add: list_all_iff prepare_setup_event)
    ultimately show ?thesis
      using setup_not_trains[of pre] prepare_not_builds[OF at_train(2)]
      by (auto simp add: list_ex_iff list_all_iff dest: builds_model_setup)
  qed
  have exact: "r = Inl (UnboundLocalError
                        (if select_lr_schedule_fn (arg_lr_schedule a) = None
                         then ''lr_schedule_fn'' else ''model''))"
    if out: "attention_model_name a \<notin> set resnet_family" and ret: "\<forall>tr ev. \<not> fails E tr ev"
    using m assms(2,3) out
    by (auto simp add: main_returns[OF ret assms(1)] setup_model_returns[OF ret]
        train_returns[OF ret] Let_def split: option.splits)
  from assigned rewrite stops exact m show ?thesis
    by simp
qed

text \<open>
  The run \<open>--model_name ResNet18 --attention True --lr_schedule keras_lr_scheduler\<close>: the
  rewrite replaces a name of the family by \<open>AttentionLeNet5_Official\<close>.
\<close>

theorem model_unassigned_outside_resnet_family_witness:
  "cmd_parser attention_invocation = Inr ((flags attention_invocation)\<lparr>arg_attention := Some True\<rparr>)
   \<and> arg_dataset ((flags attention_invocation)\<lparr>arg_attention := Some True\<rparr>) = ''mnist''
   \<and> arg_model_name ((flags attention_invocation)\<lparr>arg_attention := Some True\<rparr>) = ''ResNet18''
   \<and> ''ResNet18'' \<in> set available_models
   \<and> truthy (arg_attention ((flags attention_invocation)\<lparr>arg_attention := Some True\<rparr>))
   \<and> attention_model_name ((flags attention_invocation)\<lparr>arg_attention := Some True\<rparr>)
       = ''AttentionLeNet5_Official''
   \<and> (\<forall>tr ev. \<not> fails sample_env tr ev)
   \<and> fst (main sample_env attention_invocation []) = Inl (UnboundLocalError ''model'')
   \<and> \<not> list_ex builds_model (snd (main sample_env attention_invocation []))"
proof -
  let ?a = "(flags attention_invocation)\<lparr>arg_attention := Some True\<rparr>"
  have c: "cmd_parser attention_invocation = Inr ?a"
    by (simp add: attention_invocation_def cmd_parser_def parse_args_def string2bool_def
        default_flags_def)
  have d: "arg_dataset ?a = ''mnist''" and n: "arg_model_name ?a = ''ResNet18''"
    and t: "truthy (arg_attention ?a)"
    and l: "select_lr_schedule_fn (arg_lr_schedule ?a) = Some Keras_lr_scheduler"
    and r: "attention_model_name ?a = ''AttentionLeNet5_Official''"
    by (simp_all add: attention_invocation_def default_flags_def select_lr_schedule_fn_def
        attention_model_name_def)
  have v: "arg_model_name ?a \<in> set available_models"
    by (simp add: n available_models_def resnet_family_def)
  from model_unassigned_outside_resnet_family[OF c d v, of sample_env] t l sample_env_returns
  have "fst (main sample_env attention_invocation []) = Inl (UnboundLocalError ''model'')
     \<and> \<not> list_ex builds_model (snd (main sample_env attention_invocation []))"
    by simp
  with c d n v t r sample_env_returns show ?thesis
    by simp
qed

text \<open>
  Claim C9 as stated fails on the run \<open>--model_name LeNet5\<close>: \<open>model\<close> is not assigned,
  but with the default \<open>lr_schedule\<close> the run ends at line 196 with the
  \<open>UnboundLocalError\<close> for \<open>lr_schedule_fn\<close>; \<open>model.compile\<close> is not reached.
\<close>

theorem lenet5_stops_before_compile:
  "cmd_parser lenet5_invocation = Inr (flags lenet5_invocation)
   \<and> arg_dataset (flags lenet5_invocation) = ''mnist''
   \<and> arg_model_name (flags lenet5_invocation) = ''LeNet5''
   \<and> ''LeNet5'' \<in> set available_models
   \<and> main sample_env lenet5_invocation [] =
       (Inl (UnboundLocalError ''lr_schedule_fn''),
        [Print_args (flags lenet5_invocation), Load_cifar10_sequence 32 0 False (Finite 0.2),
         Set_random_seed 0, Sequence_getitem]
        @ config_events sample_env (flags lenet5_invocation) ''LeNet5''
        @ [Create_optimizer ''SGD'' (Finite 0.1) (Finite 0.0001) (Finite 0.9)])
   \<and> fst (main sample_env lenet5_invocation []) \<noteq> Inl (UnboundLocalError ''model'')"
proof -
  have c: "cmd_parser lenet5_invocation = Inr (flags lenet5_invocation)"
    by (simp add: lenet5_invocation_def cmd_parser_def parse_args_def default_flags_def)
  have f: "arg_dataset (flags lenet5_invocation) = ''mnist''"
    "arg_model_name (flags lenet5_invocation) = ''LeNet5''"
    "attention_model_name (flags lenet5_invocation) = ''LeNet5''"
    "select_lr_schedule_fn (arg_lr_schedule (flags lenet5_invocation)) = None"
    by (simp_all add: lenet5_invocation_def default_flags_def attention_model_name_def
        select_lr_schedule_fn_def)
  have v: "''LeNet5'' \<in> set available_models" "''LeNet5'' \<notin> set resnet_family"
    by (simp_all add: available_models_def resnet_family_def)
  have "main sample_env lenet5_invocation [] =
       (Inl (UnboundLocalError ''lr_schedule_fn''),
        [Print_args (flags lenet5_invocation), Load_cifar10_sequence 32 0 False (Finite 0.2),
         Set_random_seed 0, Sequence_getitem]
        @ config_events sample_env (flags lenet5_invocation) ''LeNet5''
        @ [Create_optimizer ''SGD'' (Finite 0.1) (Finite 0.0001) (Finite 0.9)])"
    by (simp add: main_returns[OF sample_env_returns c] setup_model_returns[OF sample_env_returns]
          train_returns[OF sample_env_returns] f v)
       (simp add: lenet5_invocation_def default_flags_def)
  with c f v show ?thesis by simp
qed

subsection \<open>C10: the validation data of \<open>fit\<close>\<close>

text \<open>
  Claim C10: with \<open>validation_split > 0\<close> the validation part of the split is never
  passed to \<open>model.fit\<close>; the validation data is the CIFAR-10 test set. Every \<open>fit\<close> of
  such a run trains on the training part of the split and validates on the test set,
  whatever the collaborators do.
\<close>

theorem fit_validates_on_test_set:
  assumes "float_gt0 (arg_validation_split (flags argv))"
    and "Fit m d b e v \<in> set (snd (main E argv []))"
  shows "v = Cifar10_test \<and> d = Split_train"
proof -
  obtain r tr where m: "main E argv [] = (r, tr)"
    by (cases "main E argv []")
  with assms have p: "Fit m d b e v \<in> set tr" by simp
  with main_trace[OF m] obtain a pre evs where a: "cmd_parser argv = Inr a"
    and tr: "tr = pre @ evs" and pre: "list_all setup_event pre"
    and evs: "list_all (train_event E (run_args a) (run_model_name a)) evs"
    by auto
  from p tr setup_not_fit[OF pre] have "Fit m d b e v \<in> set evs" by simp
  from list_allD[OF evs this] assms(1) cmd_parser_validation_split[OF a]
  show ?thesis by simp
qed

text \<open>
  The run \<open>--dataset cifar10 --lr_schedule cifar10_scheduler\<close> reaches \<open>fit\<close> after
  the split.
\<close>

theorem fit_validates_on_test_set_witness:
  "float_gt0 (arg_validation_split (flags cifar10_invocation))
   \<and> Fit (Created_cifar10 20 1) Split_train 32 100 Cifar10_test
       \<in> set (snd (main sample_env cifar10_invocation []))
   \<and> Train_test_split (Finite 0.2) 0 \<in> set (snd (main sample_env cifar10_invocation []))
   \<and> \<not> list_ex (\<lambda>ev. \<exists>m d b e. ev = Fit m d b e Split_val)
         (snd (main sample_env cifar10_invocation []))"
proof -
  have g: "float_gt0 (arg_validation_split (flags cifar10_invocation))"
    by (simp add: cifar10_invocation_def default_flags_def)
  have h: "Fit (Created_cifar10 20 1) Split_train 32 100 Cifar10_test
       \<in> set (snd (main sample_env cifar10_invocation []))"
    by (simp add: cifar10_invocation_run Let_def)
  have s: "Train_test_split (Finite 0.2) 0 \<in> set (snd (main sample_env cifar10_invocation []))"
    by (simp add: cifar10_invocation_run Let_def)
  have "\<not> list_ex (\<lambda>ev. \<exists>m d b e. ev = Fit m d b e Split_val)
         (snd (main sample_env cifar10_invocation []))"
    using fit_validates_on_test_set[OF g, of _ _ _ _ Split_val sample_env]
    by (auto simp add: list_ex_iff)
  with g h s show ?thesis by simp
qed

end
